theory Spec2Isabelle
  imports Main "HOL-Library.AList" "HOL-Library.Multiset" "HOL-Library.Word"
begin

section \<open>GoThink: the session and storage core\<close>

text \<open>
  A shallow embedding of \<^verbatim>\<open>internal/storage/storage.go\<close>, of the types in
  \<^verbatim>\<open>internal/types\<close>, of the configuration and the mental-model loader, and of the two
  tool handlers \<^verbatim>\<open>handleSequentialThinking\<close> and \<^verbatim>\<open>mental_model\<close> of
  \<^verbatim>\<open>cmd/gothink-http/main.go\<close>.

  Conventions of the embedding:
  \<^item> Go's \<^verbatim>\<open>int\<close> is \<^typ>\<open>int\<close>. The only arithmetic is a counter that grows by one
    while it is below the cap, lengths of stores, and one subtraction of a length from a
    constant or from the cap, so no 64-bit overflow is reachable.
  \<^item> A Go struct is a record. Field names of different structs coincide in the source
    (\<^verbatim>\<open>ID\<close>, \<^verbatim>\<open>CreatedAt\<close>, \<^verbatim>\<open>ThoughtCount\<close>, ...), so each record's fields carry a
    short prefix: \<open>td_\<close> for \<^verbatim>\<open>ThoughtData\<close>, \<open>md_\<close> for \<^verbatim>\<open>MentalModelData\<close>,
    \<open>sd_\<close> for \<^verbatim>\<open>SessionData\<close>, \<open>st_\<close> for \<^verbatim>\<open>SessionStatistics\<close>, \<open>ex_\<close> for
    \<^verbatim>\<open>SessionExport\<close>, \<open>tm_\<close> for \<^verbatim>\<open>types.MentalModel\<close>, \<open>mm_\<close> for
    \<^verbatim>\<open>models.MentalModel\<close>.
  \<^item> Pointers to structs are passed by value and the changed struct is returned: the
    handlers of the source build a new struct for every call, so nothing is aliased.
  \<^item> The mutexes and the logger are left out: the model is the sequential behaviour of
    the methods, each one run to completion.
\<close>

subsection \<open>Time\<close>

text \<open>
  A \<^verbatim>\<open>time.Time\<close> is the number of nanoseconds since the Unix epoch. \<^verbatim>\<open>time.Now()\<close>
  reads the environment: a clock is the sequence of readings that the coming calls of
  \<^verbatim>\<open>time.Now()\<close> will return, and each call consumes one reading.
\<close>

type_synonym time = nat

type_synonym clock = "nat \<Rightarrow> time"

definition time_Now :: "clock \<Rightarrow> time \<times> clock" where
  "time_Now c = (c 0, \<lambda>n. c (Suc n))"

definition UnixNano :: "time \<Rightarrow> int" where
  "UnixNano t = int t"

definition Nanosecond :: "time \<Rightarrow> int" where
  "Nanosecond t = int (t mod 1000000000)"

text \<open>A clock whose readings never go back.\<close>

definition monotone_clock :: "clock \<Rightarrow> bool" where
  "monotone_clock c = (\<forall>i j. i \<le> j \<longrightarrow> c i \<le> c j)"

subsection \<open>Formatting with \<^verbatim>\<open>%d\<close>\<close>

definition digit_char :: "nat \<Rightarrow> char" where
  "digit_char d = ''0123456789'' ! (d mod 10)"

fun decimal :: "nat \<Rightarrow> string" where
  "decimal n = (if n < 10 then [digit_char n] else decimal (n div 10) @ [digit_char n])"

declare decimal.simps [simp del]

definition Sprintf_d :: "int \<Rightarrow> string" where
  "Sprintf_d i = (if i < 0 then CHR ''-'' # decimal (nat (- i)) else decimal (nat i))"

subsection \<open>Errors\<close>

text \<open>
  The source builds its errors with \<^verbatim>\<open>fmt.Errorf\<close>:
  \<^verbatim>\<open>"thought limit reached for session %s"\<close> is \<open>ThoughtLimitExceeded\<close>,
  \<^verbatim>\<open>"session %s not found"\<close> is \<open>SessionNotFound\<close>; both carry the session identifier.
  \<open>ModelNotFound\<close> is the error result of the \<^verbatim>\<open>mental_model\<close> tool, with the requested
  name and the list of available models; \<open>FailedToLoadMentalModels\<close> is its other error
  result. \<open>PathDoesNotExist\<close> and \<open>FailedToWalkDirectory\<close> are errors of
  \<^verbatim>\<open>loadCustomModels\<close>. \<open>NilDereference\<close> is the panic of a handler that reads through a
  \<^verbatim>\<open>nil\<close> result: it is no error value of the source, and no caller can handle it.
\<close>

datatype error =
    ThoughtLimitExceeded string
  | SessionNotFound string
  | ModelNotFound string "string list"
  | PathDoesNotExist string
  | FailedToWalkDirectory error
  | FailedToLoadMentalModels error
  | NilDereference

subsection \<open>\<^verbatim>\<open>package types\<close>\<close>

datatype float64 = Float64 (bits: "64 word")

record ThoughtData =
  td_ID :: string
  td_Thought :: string
  td_ThoughtNumber :: int
  td_TotalThoughts :: int
  td_IsRevision :: bool
  td_RevisesThought :: "int option"
  td_BranchFromThought :: "int option"
  td_BranchID :: string
  td_NeedsMoreThoughts :: bool
  td_NextThoughtNeeded :: bool
  td_CreatedAt :: time

record MentalModelData =
  md_ID :: string
  md_ModelName :: string
  md_Problem :: string
  md_Steps :: "string list"
  md_Reasoning :: string
  md_Conclusion :: string
  md_Confidence :: float64
  md_CreatedAt :: time

record SessionExport =
  ex_Version :: string
  ex_Timestamp :: time
  ex_SessionID :: string
  ex_SessionType :: string
  ex_Data_thoughts :: "ThoughtData list"
  ex_Data_mental_models :: "MentalModelData list"
  ex_Metadata_exported_at :: time
  ex_Metadata_version :: string

record SessionStatistics =
  st_SessionID :: string
  st_CreatedAt :: time
  st_LastAccessedAt :: time
  st_ThoughtCount :: int
  st_ToolsUsed :: "string list"
  st_TotalOperations :: int
  st_IsActive :: bool
  st_RemainingThoughts :: int
  st_Stores :: "(string \<times> (string \<times> int) list) list"

record types_MentalModel =
  tm_Name :: string
  tm_Description :: string
  tm_Steps :: "string list"
  tm_Examples :: "string list"
  tm_Category :: string

text \<open>The built-in catalog, \<^verbatim>\<open>types.MentalModels\<close>.\<close>

definition MentalModels :: "(string \<times> types_MentalModel) list" where
  "MentalModels =
    [(''first_principles'',
        \<lparr>tm_Name = ''First Principles Thinking'',
         tm_Description = ''Break down complex problems into fundamental components'',
         tm_Steps = [''Identify the problem clearly'',
                     ''Break it down into basic components'',
                     ''Question assumptions'',
                     ''Build up from the basics''],
         tm_Examples = [],
         tm_Category = ''analytical''\<rparr>),
     (''opportunity_cost'',
        \<lparr>tm_Name = ''Opportunity Cost Analysis'',
         tm_Description = ''Consider what you give up when making a choice'',
         tm_Steps = [''Identify all available options'',
                     ''List the benefits of each option'',
                     ''Identify what you give up with each choice'',
                     ''Compare opportunity costs''],
         tm_Examples = [],
         tm_Category = ''decision-making''\<rparr>),
     (''bayesian_thinking'',
        \<lparr>tm_Name = ''Bayesian Thinking'',
         tm_Description = ''Update beliefs based on new evidence'',
         tm_Steps = [''Start with prior beliefs'',
                     ''Gather new evidence'',
                     ''Update beliefs using Bayes' theorem'',
                     ''Consider alternative explanations''],
         tm_Examples = [],
         tm_Category = ''probabilistic''\<rparr>),
     (''systems_thinking'',
        \<lparr>tm_Name = ''Systems Thinking'',
         tm_Description = ''Understand how parts of a system interact'',
         tm_Steps = [''Identify system boundaries'',
                     ''Map system components'',
                     ''Identify relationships and feedback loops'',
                     ''Consider emergent properties''],
         tm_Examples = [],
         tm_Category = ''holistic''\<rparr>)]"

subsection \<open>\<^verbatim>\<open>package config\<close>\<close>

text \<open>
  Durations are nanoseconds. \<^verbatim>\<open>AlgorithmDefaults\<close>, a map of untyped values that no code
  reads, is left out.
\<close>

record Config =
  Port :: string
  Host :: string
  ReadTimeout :: nat
  WriteTimeout :: nat
  SessionTimeout :: nat
  MaxThoughtsPerSession :: int
  EnablePersistence :: bool
  PersistencePath :: string
  EnableDetailedLogging :: bool
  LogLevel :: string
  MentalModelsPath :: string

definition DefaultConfig :: Config where
  "DefaultConfig =
    \<lparr>Port = ''8080'',
     Host = ''localhost'',
     ReadTimeout = 30 * 1000000000,
     WriteTimeout = 30 * 1000000000,
     SessionTimeout = 30 * 60 * 1000000000,
     MaxThoughtsPerSession = 100,
     EnablePersistence = False,
     PersistencePath = [],
     EnableDetailedLogging = False,
     LogLevel = ''info'',
     MentalModelsPath = []\<rparr>"

subsection \<open>\<^verbatim>\<open>package storage\<close>\<close>

record SessionData =
  sd_ID :: string
  sd_CreatedAt :: time
  sd_LastAccessedAt :: time
  sd_ThoughtCount :: int
  sd_ToolsUsed :: "string list"
  sd_TotalOperations :: int
  sd_IsActive :: bool
  sd_RemainingThoughts :: int

text \<open>
  The three Go maps. \<^verbatim>\<open>thoughts\<close> and \<^verbatim>\<open>mentalModels\<close> are iterated by the source, so
  they are association lists with one entry per key: an assignment \<^verbatim>\<open>m[k] = v\<close> is
  \<^const>\<open>AList.update\<close>, which replaces the value of a key that is present and adds a key
  that is not. Go leaves the order of iteration over a map open; the association list
  enumerates the keys in the order of their first insertion, and no statement below
  depends on that choice unless it says so. \<^verbatim>\<open>sessions\<close> is only looked up and
  assigned.
\<close>

record Storage =
  config :: Config
  thoughts :: "(string \<times> ThoughtData) list"
  mentalModels :: "(string \<times> MentalModelData) list"
  sessions :: "string \<rightharpoonup> SessionData"

definition empty_storage :: "Config \<Rightarrow> Storage" where
  "empty_storage cfg =
    \<lparr>config = cfg, thoughts = [], mentalModels = [], sessions = Map.empty\<rparr>"

definition New :: "Config \<Rightarrow> error + Storage" where
  "New cfg = Inr (empty_storage cfg)"

definition generateID :: "clock \<Rightarrow> string \<times> clock" where
  "generateID c =
    (case time_Now c of (t1, c1) \<Rightarrow>
     case time_Now c1 of (t2, c2) \<Rightarrow>
       (Sprintf_d (UnixNano t1) @ ''-'' @ Sprintf_d (Nanosecond t2), c2))"

definition new_session :: "clock \<Rightarrow> Config \<Rightarrow> string \<Rightarrow> SessionData \<times> clock" where
  "new_session c cfg sessionID =
    (case time_Now c of (t1, c1) \<Rightarrow>
     case time_Now c1 of (t2, c2) \<Rightarrow>
       (\<lparr>sd_ID = sessionID,
         sd_CreatedAt = t1,
         sd_LastAccessedAt = t2,
         sd_ThoughtCount = 0,
         sd_ToolsUsed = [],
         sd_TotalOperations = 0,
         sd_IsActive = True,
         sd_RemainingThoughts = MaxThoughtsPerSession cfg\<rparr>, c2))"

text \<open>\<^verbatim>\<open>getSession\<close> gets or creates a session.\<close>

definition getSession :: "clock \<Rightarrow> Storage \<Rightarrow> string \<Rightarrow> SessionData \<times> Storage \<times> clock" where
  "getSession c s sessionID =
    (case sessions s sessionID of
       Some session \<Rightarrow> (session, s, c)
     | None \<Rightarrow>
        (case new_session c (config s) sessionID of (session, c') \<Rightarrow>
          (session, s\<lparr>sessions := (sessions s)(sessionID \<mapsto> session)\<rparr>, c')))"

text \<open>
  \<^verbatim>\<open>AddThought\<close>. The result is the error, or the thought as the method leaves it in
  the caller's struct (identifier and creation time set). The storage is returned in
  both cases: the session is looked up, and created, before the limit is checked.
\<close>

definition AddThought ::
  "clock \<Rightarrow> Storage \<Rightarrow> string \<Rightarrow> ThoughtData \<Rightarrow> (error + ThoughtData) \<times> Storage \<times> clock" where
  "AddThought c s sessionID thought =
    (case getSession c s sessionID of (session, s1, c1) \<Rightarrow>
      if sd_ThoughtCount session \<ge> MaxThoughtsPerSession (config s1)
      then (Inl (ThoughtLimitExceeded sessionID), s1, c1)
      else
       (case (if td_ID thought = []
              then (case generateID c1 of (i, c') \<Rightarrow> (thought\<lparr>td_ID := i\<rparr>, c'))
              else (thought, c1)) of (thought1, c2) \<Rightarrow>
        case time_Now c2 of (t3, c3) \<Rightarrow>
        case time_Now c3 of (t4, c4) \<Rightarrow>
          let thought2 = thought1\<lparr>td_CreatedAt := t3\<rparr>;
              s2 = s1\<lparr>thoughts := AList.update (td_ID thought2) thought2 (thoughts s1)\<rparr>;
              session1 = session\<lparr>sd_ThoughtCount := sd_ThoughtCount session + 1\<rparr>;
              session2 = session1\<lparr>sd_LastAccessedAt := t4\<rparr>
          in (Inr thought2, s2\<lparr>sessions := (sessions s2)(sessionID \<mapsto> session2)\<rparr>, c4)))"

text \<open>\<^verbatim>\<open>GetThoughts\<close>: the loop appends every thought of the map; \<open>sessionID\<close> is not read.\<close>

definition GetThoughts :: "Storage \<Rightarrow> string \<Rightarrow> error + ThoughtData list" where
  "GetThoughts s sessionID = Inr (map snd (thoughts s))"

definition AddMentalModel ::
  "clock \<Rightarrow> Storage \<Rightarrow> string \<Rightarrow> MentalModelData \<Rightarrow>
     (error + MentalModelData) \<times> Storage \<times> clock" where
  "AddMentalModel c s sessionID model =
    (case (if md_ID model = []
           then (case generateID c of (i, c') \<Rightarrow> (model\<lparr>md_ID := i\<rparr>, c'))
           else (model, c)) of (model1, c1) \<Rightarrow>
     case time_Now c1 of (t2, c2) \<Rightarrow>
       let model2 = model1\<lparr>md_CreatedAt := t2\<rparr>;
           s1 = s\<lparr>mentalModels := AList.update (md_ID model2) model2 (mentalModels s)\<rparr>
       in
        (case getSession c2 s1 sessionID of (session, s2, c3) \<Rightarrow>
         case time_Now c3 of (t4, c4) \<Rightarrow>
           let session1 = session\<lparr>sd_LastAccessedAt := t4\<rparr>
           in (Inr model2, s2\<lparr>sessions := (sessions s2)(sessionID \<mapsto> session1)\<rparr>, c4)))"

definition GetMentalModels :: "Storage \<Rightarrow> string \<Rightarrow> error + MentalModelData list" where
  "GetMentalModels s sessionID = Inr (map snd (mentalModels s))"

text \<open>\<^verbatim>\<open>GetSession\<close> is the strict lookup.\<close>

definition GetSession :: "Storage \<Rightarrow> string \<Rightarrow> error + SessionData" where
  "GetSession s sessionID =
    (case sessions s sessionID of
       None \<Rightarrow> Inl (SessionNotFound sessionID)
     | Some session \<Rightarrow> Inr session)"

definition CreateSession ::
  "clock \<Rightarrow> Storage \<Rightarrow> string \<Rightarrow> (error + SessionData) \<times> Storage \<times> clock" where
  "CreateSession c s sessionID =
    (case new_session c (config s) sessionID of (session, c') \<Rightarrow>
      (Inr session, s\<lparr>sessions := (sessions s)(sessionID \<mapsto> session)\<rparr>, c'))"

text \<open>
  A call \<^verbatim>\<open>xs, _ := f()\<close> drops the error; with an error the slice would be \<^verbatim>\<open>nil\<close>.
\<close>

definition drop_error :: "error + 'a list \<Rightarrow> 'a list" where
  "drop_error r = (case r of Inl e \<Rightarrow> [] | Inr xs \<Rightarrow> xs)"

text \<open>
  \<^verbatim>\<open>GetSessionStats\<close>. The source collects the tools in a map and lists its keys, in an
  order Go leaves open; the list here has them in the order of insertion.
\<close>

definition GetSessionStats ::
  "clock \<Rightarrow> Storage \<Rightarrow> string \<Rightarrow> (error + SessionStatistics) \<times> Storage \<times> clock" where
  "GetSessionStats c s sessionID =
    (case getSession c s sessionID of (session, s1, c1) \<Rightarrow>
      let thoughts = drop_error (GetThoughts s1 sessionID);
          mentalModels = drop_error (GetMentalModels s1 sessionID);
          toolsUsed = (if length thoughts > 0 then [''sequential-thinking''] else []) @
                      (if length mentalModels > 0 then [''mental-model''] else [])
      in (Inr \<lparr>st_SessionID = sessionID,
               st_CreatedAt = sd_CreatedAt session,
               st_LastAccessedAt = sd_LastAccessedAt session,
               st_ThoughtCount = int (length thoughts),
               st_ToolsUsed = toolsUsed,
               st_TotalOperations = int (length thoughts) + int (length mentalModels),
               st_IsActive = sd_IsActive session,
               st_RemainingThoughts =
                 MaxThoughtsPerSession (config s1) - int (length thoughts),
               st_Stores =
                 [(''thoughts'', [(''count'', int (length thoughts))]),
                  (''mental_models'', [(''count'', int (length mentalModels))])]\<rparr>,
          s1, c1))"

definition ExportSession ::
  "clock \<Rightarrow> Storage \<Rightarrow> string \<Rightarrow> (error + SessionExport) \<times> Storage \<times> clock" where
  "ExportSession c s sessionID =
    (let thoughts = drop_error (GetThoughts s sessionID);
         mentalModels = drop_error (GetMentalModels s sessionID)
     in
      (case time_Now c of (t1, c1) \<Rightarrow>
       case time_Now c1 of (t2, c2) \<Rightarrow>
        (Inr \<lparr>ex_Version = ''1.0.0'',
              ex_Timestamp = t1,
              ex_SessionID = sessionID,
              ex_SessionType = ''hybrid'',
              ex_Data_thoughts = thoughts,
              ex_Data_mental_models = mentalModels,
              ex_Metadata_exported_at = t2,
              ex_Metadata_version = ''0.1.0''\<rparr>,
         s, c2)))"

subsection \<open>\<^verbatim>\<open>package models\<close>: the loader\<close>

record MentalModel =
  mm_Name :: string
  mm_Description :: string
  mm_Steps :: "string list"
  mm_Category :: string
  mm_Priority :: int

type_synonym catalog = "(string \<times> MentalModel) list"

text \<open>The first loop of \<^verbatim>\<open>LoadMentalModels\<close>: the core models, with priority 0.\<close>

definition core_models :: catalog where
  "core_models =
    foldl (\<lambda>models (key, coreModel).
             AList.update key
               \<lparr>mm_Name = tm_Name coreModel,
                mm_Description = tm_Description coreModel,
                mm_Steps = tm_Steps coreModel,
                mm_Category = tm_Category coreModel,
                mm_Priority = 0\<rparr> models)
          [] MentalModels"

text \<open>
  The file system is the environment of the loader. \<^verbatim>\<open>os.Stat\<close> returns the file info
  of a file or of a directory, or no info and an error: one that \<^verbatim>\<open>os.IsNotExist\<close>
  recognises, or another one (no permission, a component of the path that is no
  directory). \<^verbatim>\<open>filepath.WalkDir\<close> passes the entries of a directory to its callback;
  \<open>WalkDir\<close> gives the paths of the entries that are no directories, in the order of the
  walk, or the error that the walk hands to the callback, which returns it and so ends
  the walk. \<^verbatim>\<open>loadModelsFromFile\<close> reads one file, parses its YAML and validates the
  models; what it returns for a path, an error or the models of the file, is taken from
  the environment, so every statement below holds for whatever it returns.
\<close>

datatype stat_result = Stat_File | Stat_Dir | Stat_NotExist | Stat_Error

record FileSystem =
  Stat :: "string \<Rightarrow> stat_result"
  WalkDir :: "string \<Rightarrow> error + string list"
  loadModelsFromFile :: "string \<Rightarrow> error + catalog"

definition HasSuffix :: "string \<Rightarrow> string \<Rightarrow> bool" where
  "HasSuffix s suffix =
    (length suffix \<le> length s \<and> drop (length s - length suffix) s = suffix)"

text \<open>
  \<^verbatim>\<open>loadCustomModels\<close>. The result \<open>None\<close> is a panic: the source tests the error of
  \<^verbatim>\<open>os.Stat\<close> with \<^verbatim>\<open>os.IsNotExist\<close> only and then calls \<^verbatim>\<open>info.IsDir()\<close>, on a \<^verbatim>\<open>nil\<close>
  info when \<^verbatim>\<open>os.Stat\<close> failed with another error. In a directory, a file that does
  not load is skipped, and a later file replaces the models of an earlier one.
\<close>

definition loadCustomModels :: "FileSystem \<Rightarrow> string \<Rightarrow> (error + catalog) option" where
  "loadCustomModels fs path =
    (case Stat fs path of
       Stat_NotExist \<Rightarrow> Some (Inl (PathDoesNotExist path))
     | Stat_Error \<Rightarrow> None
     | Stat_Dir \<Rightarrow>
        (case WalkDir fs path of
           Inl err \<Rightarrow> Some (Inl (FailedToWalkDirectory err))
         | Inr files \<Rightarrow>
            Some (Inr (foldl (\<lambda>models file.
                         if HasSuffix file ''.yaml'' \<or> HasSuffix file ''.yml''
                         then (case loadModelsFromFile fs file of
                                 Inl err \<Rightarrow> models
                               | Inr fileModels \<Rightarrow>
                                   foldl (\<lambda>models (k, v). AList.update k v models)
                                     models fileModels)
                         else models)
                       [] files)))
     | Stat_File \<Rightarrow>
        (case loadModelsFromFile fs path of
           Inl err \<Rightarrow> Some (Inl err)
         | Inr models \<Rightarrow> Some (Inr models)))"

text \<open>
  \<^verbatim>\<open>LoadMentalModels\<close>. An error of \<^verbatim>\<open>loadCustomModels\<close> is logged and the core models
  are kept; custom models are merged over the core models and replace them. A panic of
  \<^verbatim>\<open>loadCustomModels\<close> is a panic of \<^verbatim>\<open>LoadMentalModels\<close>.
\<close>

definition LoadMentalModels :: "FileSystem \<Rightarrow> string \<Rightarrow> (error + catalog) option" where
  "LoadMentalModels fs configPath =
    (let models = core_models in
     if configPath \<noteq> []
     then (case loadCustomModels fs configPath of
             None \<Rightarrow> None
           | Some (Inl err) \<Rightarrow> Some (Inr models)
           | Some (Inr customModels) \<Rightarrow>
               Some (Inr (foldl (\<lambda>models (key, model). AList.update key model models)
                            models customModels)))
     else Some (Inr models))"

definition GetAvailableModels :: "catalog \<Rightarrow> string list" where
  "GetAvailableModels models = map (\<lambda>(key, model). key @ '': '' @ mm_Name model) models"

subsection \<open>The tool handlers of \<^verbatim>\<open>cmd/gothink-http/main.go\<close>\<close>

text \<open>
  A handler builds a map and marshals it to JSON. The records below are these maps, with
  the nested maps flattened into the field names; the JSON text is not modelled.
\<close>

record SequentialThinkingResponse =
  sr_status :: string
  sr_thought_id :: string
  sr_session_id :: string
  sr_total_thoughts :: int
  sr_remaining_thoughts :: int

definition handleSequentialThinking ::
  "clock \<Rightarrow> Storage \<Rightarrow> string \<Rightarrow> string \<Rightarrow> int \<Rightarrow> int \<Rightarrow> bool \<Rightarrow>
     (error + SequentialThinkingResponse) \<times> Storage \<times> clock" where
  "handleSequentialThinking c store sessionID thought thoughtNumber totalThoughts
       nextThoughtNeeded =
    (case time_Now c of (t1, c1) \<Rightarrow>
     case time_Now c1 of (t2, c2) \<Rightarrow>
      let thoughtData =
            \<lparr>td_ID = Sprintf_d (UnixNano t1) @ ''-'' @ Sprintf_d thoughtNumber,
             td_Thought = thought,
             td_ThoughtNumber = thoughtNumber,
             td_TotalThoughts = totalThoughts,
             td_IsRevision = False,
             td_RevisesThought = None,
             td_BranchFromThought = None,
             td_BranchID = [],
             td_NeedsMoreThoughts = False,
             td_NextThoughtNeeded = nextThoughtNeeded,
             td_CreatedAt = t2\<rparr>
      in
       (case AddThought c2 store sessionID thoughtData of
          (Inl err, store1, c3) \<Rightarrow> (Inl err, store1, c3)
        | (Inr thoughtData1, store1, c3) \<Rightarrow>
           (case GetSessionStats c3 store1 sessionID of
              (Inl err, store2, c4) \<Rightarrow> (Inl err, store2, c4)
            | (Inr stats, store2, c4) \<Rightarrow>
               (Inr \<lparr>sr_status = ''success'',
                     sr_thought_id = td_ID thoughtData1,
                     sr_session_id = sessionID,
                     sr_total_thoughts = st_ThoughtCount stats,
                     sr_remaining_thoughts = 100 - st_ThoughtCount stats\<rparr>,
                store2, c4))))"

record MentalModelResponse =
  mr_status :: string
  mr_model_id :: string
  mr_model_info_name :: string
  mr_model_info_description :: string
  mr_model_info_category :: string
  mr_model_info_priority :: int
  mr_steps_used :: "string list"
  mr_has_steps :: bool
  mr_has_conclusion :: bool
  mr_session_id :: string
  mr_total_mental_models :: int

text \<open>
  \<^verbatim>\<open>stats.Stores["mental_models"].(map[string]int)["count"]\<close>: the type assertion panics
  when the key is missing, the inner lookup gives 0 for a missing key.
\<close>

definition stores_count :: "SessionStatistics \<Rightarrow> string \<Rightarrow> error + int" where
  "stores_count stats name =
    (case map_of (st_Stores stats) name of
       None \<Rightarrow> Inl NilDereference
     | Some m \<Rightarrow> Inr (case map_of m ''count'' of None \<Rightarrow> 0 | Some n \<Rightarrow> n))"

text \<open>
  The handler of the \<^verbatim>\<open>mental_model\<close> tool (the second closure of
  \<^verbatim>\<open>addThinkingTools\<close>). The errors of \<^verbatim>\<open>AddMentalModel\<close> and \<^verbatim>\<open>GetSessionStats\<close> are
  dropped by the source. A panic of the loader is a panic of the handler, before it
  touches the storage or the clock.
\<close>

definition mental_model_tool ::
  "FileSystem \<Rightarrow> Config \<Rightarrow> clock \<Rightarrow> Storage \<Rightarrow>
     string \<Rightarrow> string \<Rightarrow> string \<Rightarrow> string list \<Rightarrow>
     (error + MentalModelResponse) \<times> Storage \<times> clock" where
  "mental_model_tool fs cfg c store sessionID modelName problem steps0 =
    (case LoadMentalModels fs (MentalModelsPath cfg) of
       None \<Rightarrow> (Inl NilDereference, store, c)
     | Some (Inl err) \<Rightarrow> (Inl (FailedToLoadMentalModels err), store, c)
     | Some (Inr availableModels) \<Rightarrow>
        (case map_of availableModels modelName of
           None \<Rightarrow>
             (Inl (ModelNotFound modelName (GetAvailableModels availableModels)), store, c)
         | Some model \<Rightarrow>
            let steps = (if length steps0 = 0 then mm_Steps model else steps0) in
            (case time_Now c of (t1, c1) \<Rightarrow>
             case time_Now c1 of (t2, c2) \<Rightarrow>
              let modelData =
                    \<lparr>md_ID = Sprintf_d (UnixNano t1) @ ''-'' @ Sprintf_d (int (length steps)),
                     md_ModelName = modelName,
                     md_Problem = problem,
                     md_Steps = steps,
                     md_Reasoning = [],
                     md_Conclusion = [],
                     md_Confidence = Float64 0,
                     md_CreatedAt = t2\<rparr>
              in
               (case AddMentalModel c2 store sessionID modelData of (r, store1, c3) \<Rightarrow>
                 let modelData1 = (case r of Inl err \<Rightarrow> modelData | Inr m \<Rightarrow> m) in
                 (case GetSessionStats c3 store1 sessionID of
                    (Inl err, store2, c4) \<Rightarrow> (Inl NilDereference, store2, c4)
                  | (Inr stats, store2, c4) \<Rightarrow>
                     (case stores_count stats ''mental_models'' of
                        Inl err \<Rightarrow> (Inl err, store2, c4)
                      | Inr n \<Rightarrow>
                         (Inr \<lparr>mr_status = ''success'',
                               mr_model_id = md_ID modelData1,
                               mr_model_info_name = mm_Name model,
                               mr_model_info_description = mm_Description model,
                               mr_model_info_category = mm_Category model,
                               mr_model_info_priority = mm_Priority model,
                               mr_steps_used = steps,
                               mr_has_steps = (length steps > 0),
                               mr_has_conclusion = False,
                               mr_session_id = sessionID,
                               mr_total_mental_models = n\<rparr>,
                          store2, c4)))))))"

subsection \<open>Sequences of operations\<close>

text \<open>
  The operations on a storage: the two appends, the get-or-create of a session, the
  statistics, the export, and a reading of the clock by a caller (the handlers read the
  clock before they call the storage). A state is a storage with the clock.
  \<^verbatim>\<open>CreateSession\<close>, which replaces a session by a new one and which only a test of the
  source calls, is not among them; the lookups \<^verbatim>\<open>GetSession\<close>, \<^verbatim>\<open>GetThoughts\<close> and
  \<^verbatim>\<open>GetMentalModels\<close> change nothing.
\<close>

datatype op =
    Op_AddThought string ThoughtData
  | Op_AddMentalModel string MentalModelData
  | Op_getSession string
  | Op_GetSessionStats string
  | Op_ExportSession string
  | Op_time_Now

fun step :: "Storage \<times> clock \<Rightarrow> op \<Rightarrow> Storage \<times> clock" where
  "step (s, c) (Op_AddThought sessionID thought) = snd (AddThought c s sessionID thought)"
| "step (s, c) (Op_AddMentalModel sessionID model) = snd (AddMentalModel c s sessionID model)"
| "step (s, c) (Op_getSession sessionID) = snd (getSession c s sessionID)"
| "step (s, c) (Op_GetSessionStats sessionID) = snd (GetSessionStats c s sessionID)"
| "step (s, c) (Op_ExportSession sessionID) = snd (ExportSession c s sessionID)"
| "step (s, c) Op_time_Now = (s, snd (time_Now c))"

definition run :: "Storage \<times> clock \<Rightarrow> op list \<Rightarrow> Storage \<times> clock" where
  "run = foldl step"

text \<open>
  The thought count of a session, as \<^verbatim>\<open>getSession\<close> would report it: a session that
  does not exist yet would be created with count 0.
\<close>

definition thought_count :: "Storage \<Rightarrow> string \<Rightarrow> int" where
  "thought_count s sessionID =
    (case sessions s sessionID of None \<Rightarrow> 0 | Some session \<Rightarrow> sd_ThoughtCount session)"

text \<open>The number of thought appends for a session that succeed along a sequence.\<close>

fun appended :: "string \<Rightarrow> Storage \<times> clock \<Rightarrow> op list \<Rightarrow> nat" where
  "appended sessionID \<sigma> [] = 0"
| "appended sessionID \<sigma> (Op_AddThought sid thought # ops) =
     (if sid = sessionID \<and> \<not> isl (fst (AddThought (snd \<sigma>) (fst \<sigma>) sid thought))
      then 1 else 0)
     + appended sessionID (step \<sigma> (Op_AddThought sid thought)) ops"
| "appended sessionID \<sigma> (x # ops) = appended sessionID (step \<sigma> x) ops"

subsection \<open>Auxiliary notions for the statements\<close>

text \<open>The clock after \<open>k\<close> more readings.\<close>

definition later :: "clock \<Rightarrow> nat \<Rightarrow> clock" where
  "later c k = (\<lambda>n. c (n + k))"

text \<open>
  No session was accessed after the next reading of a clock that never goes back.
\<close>

definition access_inv :: "Storage \<times> clock \<Rightarrow> bool" where
  "access_inv \<sigma> = (monotone_clock (snd \<sigma>) \<and>
     (\<forall>sid x. sessions (fst \<sigma>) sid = Some x \<longrightarrow>
        sd_LastAccessedAt x \<le> snd \<sigma> 0))"

text \<open>The thought count of every session is between 0 and the cap (or 0, for a negative cap).\<close>

definition count_inv :: "Storage \<Rightarrow> bool" where
  "count_inv s = (\<forall>sid x. sessions s sid = Some x \<longrightarrow>
        0 \<le> sd_ThoughtCount x \<and>
        sd_ThoughtCount x \<le> max 0 (MaxThoughtsPerSession (config s)))"

text \<open>
  Values for the examples: the struct literals
  \<^verbatim>\<open>ThoughtData{ID: i, Thought: th, ThoughtNumber: n, TotalThoughts: k}\<close> and
  \<^verbatim>\<open>MentalModelData{ID: i, ModelName: name, Problem: problem, Steps: steps}\<close>, and a clock
  that starts at 1000 and advances by one nanosecond per reading.
\<close>

definition thought_lit :: "string \<Rightarrow> string \<Rightarrow> int \<Rightarrow> int \<Rightarrow> ThoughtData" where
  "thought_lit i th n k =
    \<lparr>td_ID = i, td_Thought = th, td_ThoughtNumber = n, td_TotalThoughts = k,
     td_IsRevision = False, td_RevisesThought = None, td_BranchFromThought = None,
     td_BranchID = [], td_NeedsMoreThoughts = False, td_NextThoughtNeeded = False,
     td_CreatedAt = 0\<rparr>"

definition model_lit :: "string \<Rightarrow> string \<Rightarrow> string \<Rightarrow> string list \<Rightarrow> MentalModelData" where
  "model_lit i name problem steps =
    \<lparr>md_ID = i, md_ModelName = name, md_Problem = problem, md_Steps = steps,
     md_Reasoning = [], md_Conclusion = [], md_Confidence = Float64 0, md_CreatedAt = 0\<rparr>"

definition tick_clock :: clock where
  "tick_clock = (\<lambda>n. 1000 + n)"

text \<open>
  Three file systems for the examples: one with no file at all; one whose only file,
  \<^verbatim>\<open>models.yaml\<close>, holds a valid definition of \<^verbatim>\<open>first_principles\<close> with priority 1;
  and one on which \<^verbatim>\<open>os.Stat\<close> fails for every path with an error other than
  not-exist.
\<close>

definition no_files :: FileSystem where
  "no_files =
    \<lparr>Stat = (\<lambda>path. Stat_NotExist),
     WalkDir = (\<lambda>path. Inl (PathDoesNotExist path)),
     loadModelsFromFile = (\<lambda>path. Inl (PathDoesNotExist path))\<rparr>"

definition override_file :: FileSystem where
  "override_file =
    \<lparr>Stat = (\<lambda>path. if path = ''models.yaml'' then Stat_File else Stat_NotExist),
     WalkDir = (\<lambda>path. Inl (PathDoesNotExist path)),
     loadModelsFromFile =
       (\<lambda>path. if path = ''models.yaml''
          then Inr [(''first_principles'',
                     \<lparr>mm_Name = ''My First Principles'',
                      mm_Description = ''A custom definition'',
                      mm_Steps = [''Ask why five times''],
                      mm_Category = ''custom'',
                      mm_Priority = 1\<rparr>)]
          else Inl (PathDoesNotExist path))\<rparr>"

definition stat_fails :: FileSystem where
  "stat_fails =
    \<lparr>Stat = (\<lambda>path. Stat_Error),
     WalkDir = (\<lambda>path. Inl (PathDoesNotExist path)),
     loadModelsFromFile = (\<lambda>path. Inl (PathDoesNotExist path))\<rparr>"

text \<open>
  The submissions along a sequence of operations. \<open>submitted_thoughts\<close> lists the thoughts
  of the appends that succeed, as the callers passed them; \<open>accepted_thoughts\<close> lists the
  same thoughts as the storage returned them, with identifier and creation time set.
  Likewise for the mental models. \<open>thought_content\<close> and \<open>model_content\<close> blank the two
  fields that the storage assigns; \<open>writes_of_session\<close> holds of an operation that
  appends nothing or appends for the given session.
\<close>

definition thought_content :: "ThoughtData \<Rightarrow> ThoughtData" where
  "thought_content t = t\<lparr>td_ID := [], td_CreatedAt := 0\<rparr>"

definition model_content :: "MentalModelData \<Rightarrow> MentalModelData" where
  "model_content m = m\<lparr>md_ID := [], md_CreatedAt := 0\<rparr>"

fun accepted_thoughts :: "Storage \<times> clock \<Rightarrow> op list \<Rightarrow> ThoughtData list" where
  "accepted_thoughts \<sigma> [] = []"
| "accepted_thoughts \<sigma> (Op_AddThought sid t # ops) =
     (case fst (AddThought (snd \<sigma>) (fst \<sigma>) sid t) of Inl e \<Rightarrow> [] | Inr t' \<Rightarrow> [t'])
     @ accepted_thoughts (step \<sigma> (Op_AddThought sid t)) ops"
| "accepted_thoughts \<sigma> (x # ops) = accepted_thoughts (step \<sigma> x) ops"

fun submitted_thoughts :: "Storage \<times> clock \<Rightarrow> op list \<Rightarrow> ThoughtData list" where
  "submitted_thoughts \<sigma> [] = []"
| "submitted_thoughts \<sigma> (Op_AddThought sid t # ops) =
     (case fst (AddThought (snd \<sigma>) (fst \<sigma>) sid t) of Inl e \<Rightarrow> [] | Inr t' \<Rightarrow> [t])
     @ submitted_thoughts (step \<sigma> (Op_AddThought sid t)) ops"
| "submitted_thoughts \<sigma> (x # ops) = submitted_thoughts (step \<sigma> x) ops"

fun accepted_models :: "Storage \<times> clock \<Rightarrow> op list \<Rightarrow> MentalModelData list" where
  "accepted_models \<sigma> [] = []"
| "accepted_models \<sigma> (Op_AddMentalModel sid m # ops) =
     (case fst (AddMentalModel (snd \<sigma>) (fst \<sigma>) sid m) of Inl e \<Rightarrow> [] | Inr m' \<Rightarrow> [m'])
     @ accepted_models (step \<sigma> (Op_AddMentalModel sid m)) ops"
| "accepted_models \<sigma> (x # ops) = accepted_models (step \<sigma> x) ops"

fun submitted_models :: "Storage \<times> clock \<Rightarrow> op list \<Rightarrow> MentalModelData list" where
  "submitted_models \<sigma> [] = []"
| "submitted_models \<sigma> (Op_AddMentalModel sid m # ops) =
     (case fst (AddMentalModel (snd \<sigma>) (fst \<sigma>) sid m) of Inl e \<Rightarrow> [] | Inr m' \<Rightarrow> [m])
     @ submitted_models (step \<sigma> (Op_AddMentalModel sid m)) ops"
| "submitted_models \<sigma> (x # ops) = submitted_models (step \<sigma> x) ops"

fun writes_of_session :: "string \<Rightarrow> op \<Rightarrow> bool" where
  "writes_of_session sessionID (Op_AddThought sid t) = (sid = sessionID)"
| "writes_of_session sessionID (Op_AddMentalModel sid m) = (sid = sessionID)"
| "writes_of_session sessionID x = True"

section \<open>Properties\<close>

subsection \<open>Clock readings and identifiers\<close>

lemma decimal_nonempty: "decimal n \<noteq> []"
  by (subst decimal.simps) simp

lemma Sprintf_d_nonempty: "Sprintf_d i \<noteq> []"
  by (simp add: Sprintf_d_def decimal_nonempty)

lemma generateID_nonempty: "fst (generateID c) \<noteq> []"
  by (simp add: generateID_def time_Now_def Sprintf_d_nonempty)

subsection \<open>The get-or-create of a session and the limit check\<close>

lemma getSession_config: "config (fst (snd (getSession c s sid))) = config s"
  by (simp add: getSession_def new_session_def time_Now_def split: option.splits)

lemma getSession_count: "sd_ThoughtCount (fst (getSession c s sid)) = thought_count s sid"
  by (simp add: getSession_def new_session_def time_Now_def thought_count_def split: option.splits)

lemma getSession_stored:
  "sessions (fst (snd (getSession c s sid))) sid = Some (fst (getSession c s sid))"
  by (simp add: getSession_def new_session_def time_Now_def split: option.splits)

lemma getSession_thoughts:
  "thoughts (fst (snd (getSession c s sid))) = thoughts s"
  "mentalModels (fst (snd (getSession c s sid))) = mentalModels s"
  by (simp_all add: getSession_def new_session_def time_Now_def split: option.splits)

lemma getSession_thought_count:
  "thought_count (fst (snd (getSession c s sid))) sid' = thought_count s sid'"
  by (simp add: getSession_def new_session_def time_Now_def thought_count_def split: option.splits)

lemma getSession_existing:
  "sessions s sid' = Some x \<Longrightarrow> sessions (fst (snd (getSession c s sid))) sid' = Some x"
  by (auto simp add: getSession_def new_session_def time_Now_def split: option.splits)

lemma AddThought_fails_iff:
  "isl (fst (AddThought c s sid t)) \<longleftrightarrow> MaxThoughtsPerSession (config s) \<le> thought_count s sid"
  using getSession_config[of c s sid] getSession_count[of c s sid]
  by (auto simp add: AddThought_def Let_def split: prod.splits if_splits)

lemma AddThought_fail:
  "MaxThoughtsPerSession (config s) \<le> thought_count s sid \<Longrightarrow>
   AddThought c s sid t = (Inl (ThoughtLimitExceeded sid), snd (getSession c s sid))"
  using getSession_config[of c s sid] getSession_count[of c s sid]
  by (auto simp add: AddThought_def Let_def split: prod.splits if_splits)

lemma AddThought_count:
  "\<not> MaxThoughtsPerSession (config s) \<le> thought_count s sid \<Longrightarrow>
   thought_count (fst (snd (AddThought c s sid t))) sid' =
     (if sid' = sid then thought_count s sid + 1 else thought_count s sid')"
  using getSession_config[of c s sid] getSession_count[of c s sid]
    getSession_thought_count[of c s sid sid']
  by (auto simp add: AddThought_def Let_def thought_count_def split: prod.splits if_splits)

subsection \<open>What every operation preserves\<close>

lemma time_Now_reading: "time_Now c = (t, c') \<Longrightarrow> t = c 0"
  by (auto simp add: time_Now_def)

lemma time_Now_mono:
  "time_Now c = (t, c') \<Longrightarrow> monotone_clock c \<Longrightarrow> monotone_clock c' \<and> c 0 \<le> c' 0"
  by (auto simp add: time_Now_def monotone_clock_def)

lemma generateID_mono:
  "generateID c = (i, c') \<Longrightarrow> monotone_clock c \<Longrightarrow> monotone_clock c' \<and> c 0 \<le> c' 0"
  by (auto simp add: generateID_def split: prod.splits dest!: time_Now_mono)

lemma new_session_mono:
  "new_session c cfg sid = (x, c') \<Longrightarrow> monotone_clock c \<Longrightarrow>
     monotone_clock c' \<and> c 0 \<le> c' 0 \<and> sd_LastAccessedAt x \<le> c' 0 \<and> sd_ThoughtCount x = 0"
  apply (clarsimp simp add: new_session_def split: prod.splits)
  apply (frule (1) time_Now_mono)
  apply (drule time_Now_reading)
  apply clarsimp
  apply (frule (1) time_Now_mono)
  apply (drule time_Now_reading)
  apply clarsimp
  done

lemma step_config: "config (fst (step \<sigma> x)) = config (fst \<sigma>)"
  apply (cases \<sigma>; cases x)
  apply (simp_all add: AddThought_def AddMentalModel_def getSession_def new_session_def
      GetSessionStats_def ExportSession_def generateID_def time_Now_def Let_def
      split: prod.splits option.splits if_splits)
  done

lemma getSession_inv:
  "getSession c s sid = (x, s', c') \<Longrightarrow> access_inv (s, c) \<Longrightarrow>
     access_inv (s', c') \<and> c 0 \<le> c' 0 \<and> sessions s' sid = Some x"
  apply (clarsimp simp add: getSession_def access_inv_def split: option.splits prod.splits)
   apply (frule (1) new_session_mono)
   apply (fastforce)
  done

lemma getSession_keeps:
  "getSession c s sid = (x, s', c') \<Longrightarrow>
     config s' = config s \<and> thoughts s' = thoughts s \<and> mentalModels s' = mentalModels s \<and>
     (\<forall>sid' y. sessions s sid' = Some y \<longrightarrow> sessions s' sid' = Some y)"
  by (auto simp add: getSession_def split: option.splits prod.splits)

lemma AddThought_inv:
  assumes "AddThought c s sid t = (r, s', c')" and "access_inv (s, c)"
  shows "access_inv (s', c') \<and>
     (\<forall>sid' y. sessions s sid' = Some y \<longrightarrow>
        (\<exists>y'. sessions s' sid' = Some y' \<and> sd_LastAccessedAt y \<le> sd_LastAccessedAt y'))"
proof -
  obtain x s1 c1 where g: "getSession c s sid = (x, s1, c1)"
    by (cases "getSession c s sid") auto
  from getSession_inv[OF g assms(2)] getSession_keeps[OF g]
  have i1: "access_inv (s1, c1)" and x: "sessions s1 sid = Some x"
    and k: "config s1 = config s" "\<forall>sid' y. sessions s sid' = Some y \<longrightarrow> sessions s1 sid' = Some y"
    by auto
  show ?thesis
  proof (cases "MaxThoughtsPerSession (config s1) \<le> sd_ThoughtCount x")
    case True
    with assms(1) g have "s' = s1" "c' = c1" by (auto simp add: AddThought_def)
    with i1 k show ?thesis by auto
  next
    case False
    obtain th c2 where id: "(if td_ID t = []
              then (case generateID c1 of (i, c') \<Rightarrow> (t\<lparr>td_ID := i\<rparr>, c'))
              else (t, c1)) = (th, c2)"
      by (cases "(if td_ID t = []
              then (case generateID c1 of (i, c') \<Rightarrow> (t\<lparr>td_ID := i\<rparr>, c'))
              else (t, c1))") auto
    obtain t3 c3 where n3: "time_Now c2 = (t3, c3)" by (cases "time_Now c2") auto
    obtain t4 c4 where n4: "time_Now c3 = (t4, c4)" by (cases "time_Now c3") auto
    from i1 have m1: "monotone_clock c1" by (simp add: access_inv_def)
    from id m1 have m2: "monotone_clock c2 \<and> c1 0 \<le> c2 0"
      by (auto split: if_splits prod.splits dest: generateID_mono)
    with time_Now_mono[OF n3] have m3: "monotone_clock c3 \<and> c2 0 \<le> c3 0" by simp
    with time_Now_mono[OF n4] have m4: "monotone_clock c4 \<and> c3 0 \<le> c4 0" by simp
    have t4: "t4 = c3 0" using time_Now_reading[OF n4] .
    from assms(1) g False id n3 n4
    have s': "sessions s' = (sessions s1)(sid \<mapsto> x\<lparr>sd_ThoughtCount := sd_ThoughtCount x + 1, sd_LastAccessedAt := t4\<rparr>)"
      and c': "c' = c4" and cf: "config s' = config s1"
      by (auto simp add: AddThought_def Let_def)
    from i1 x have bx: "sd_LastAccessedAt x \<le> c1 0"
      by (auto simp add: access_inv_def)
    have "access_inv (s', c')"
      using i1 m2 m3 m4 t4 False bx
      by (auto simp add: access_inv_def s' c' cf) (fastforce)+
    moreover have "\<forall>sid' y. sessions s sid' = Some y \<longrightarrow>
        (\<exists>y'. sessions s' sid' = Some y' \<and> sd_LastAccessedAt y \<le> sd_LastAccessedAt y')"
      using k(2) x bx m2 m3 t4 by (auto simp add: s')
    ultimately show ?thesis by simp
  qed
qed


lemma access_inv_later:
  "access_inv (s, c) \<Longrightarrow> monotone_clock c' \<Longrightarrow> c 0 \<le> c' 0 \<Longrightarrow>
   sessions s' = sessions s \<Longrightarrow> access_inv (s', c')"
  by (fastforce simp add: access_inv_def)

lemma AddMentalModel_inv:
  assumes "AddMentalModel c s sid m = (r, s', c')" and "access_inv (s, c)"
  shows "access_inv (s', c') \<and>
     (\<forall>sid' y. sessions s sid' = Some y \<longrightarrow>
        (\<exists>y'. sessions s' sid' = Some y' \<and> sd_LastAccessedAt y \<le> sd_LastAccessedAt y'))"
proof -
  obtain m1 c1 where id: "(if md_ID m = []
           then (case generateID c of (i, c') \<Rightarrow> (m\<lparr>md_ID := i\<rparr>, c'))
           else (m, c)) = (m1, c1)"
    by (cases "(if md_ID m = []
           then (case generateID c of (i, c') \<Rightarrow> (m\<lparr>md_ID := i\<rparr>, c'))
           else (m, c))") auto
  obtain t2 c2 where n2: "time_Now c1 = (t2, c2)" by (cases "time_Now c1") auto
  define s1 where "s1 = s\<lparr>mentalModels :=
     AList.update (md_ID (m1\<lparr>md_CreatedAt := t2\<rparr>)) (m1\<lparr>md_CreatedAt := t2\<rparr>) (mentalModels s)\<rparr>"
  obtain x s2 c3 where g: "getSession c2 s1 sid = (x, s2, c3)"
    by (cases "getSession c2 s1 sid") auto
  obtain t4 c4 where n4: "time_Now c3 = (t4, c4)" by (cases "time_Now c3") auto
  from assms(2) have m0: "monotone_clock c" by (simp add: access_inv_def)
  from id m0 have m1: "monotone_clock c1 \<and> c 0 \<le> c1 0"
    by (auto split: if_splits prod.splits dest: generateID_mono)
  with time_Now_mono[OF n2] have m2: "monotone_clock c2 \<and> c1 0 \<le> c2 0" by simp
  have i1: "access_inv (s1, c2)"
    using access_inv_later[OF assms(2), of c2 s1] m1 m2 by (simp add: s1_def)
  from getSession_inv[OF g i1] getSession_keeps[OF g]
  have i2: "access_inv (s2, c3)" and x: "sessions s2 sid = Some x"
    and k: "config s2 = config s1"
       "\<forall>sid' y. sessions s1 sid' = Some y \<longrightarrow> sessions s2 sid' = Some y"
    by auto
  from i2 have m3: "monotone_clock c3" by (simp add: access_inv_def)
  with time_Now_mono[OF n4] have m4: "monotone_clock c4 \<and> c3 0 \<le> c4 0" by simp
  have t4: "t4 = c3 0" using time_Now_reading[OF n4] .
  from assms(1) id n2 g n4
  have s': "sessions s' = (sessions s2)(sid \<mapsto> x\<lparr>sd_LastAccessedAt := t4\<rparr>)"
    and c': "c' = c4" and cf: "config s' = config s2"
    by (auto simp add: AddMentalModel_def Let_def s1_def)
  from i2 x have bx: "sd_LastAccessedAt x \<le> c3 0"
    by (auto simp add: access_inv_def)
  have "access_inv (s', c')"
    using i2 m4 t4 bx
    by (auto simp add: access_inv_def s' c' cf) (fastforce)+
  moreover have "\<forall>sid' y. sessions s sid' = Some y \<longrightarrow>
      (\<exists>y'. sessions s' sid' = Some y' \<and> sd_LastAccessedAt y \<le> sd_LastAccessedAt y')"
    using k(2) x bx t4 by (auto simp add: s' s1_def)
  ultimately show ?thesis by simp
qed

lemma GetSessionStats_inv:
  assumes "GetSessionStats c s sid = (r, s', c')" and "access_inv (s, c)"
  shows "access_inv (s', c') \<and>
     (\<forall>sid' y. sessions s sid' = Some y \<longrightarrow>
        (\<exists>y'. sessions s' sid' = Some y' \<and> sd_LastAccessedAt y \<le> sd_LastAccessedAt y'))"
proof -
  obtain x s1 c1 where g: "getSession c s sid = (x, s1, c1)"
    by (cases "getSession c s sid") auto
  with assms(1) have "s' = s1" "c' = c1"
    by (auto simp add: GetSessionStats_def Let_def)
  with getSession_inv[OF g assms(2)] getSession_keeps[OF g] show ?thesis by auto
qed

lemma ExportSession_inv:
  assumes "ExportSession c s sid = (r, s', c')" and "access_inv (s, c)"
  shows "access_inv (s', c') \<and>
     (\<forall>sid' y. sessions s sid' = Some y \<longrightarrow>
        (\<exists>y'. sessions s' sid' = Some y' \<and> sd_LastAccessedAt y \<le> sd_LastAccessedAt y'))"
proof -
  obtain t1 c1 where n1: "time_Now c = (t1, c1)" by (cases "time_Now c") auto
  obtain t2 c2 where n2: "time_Now c1 = (t2, c2)" by (cases "time_Now c1") auto
  from assms(2) have m0: "monotone_clock c" by (simp add: access_inv_def)
  with time_Now_mono[OF n1] have m1: "monotone_clock c1 \<and> c 0 \<le> c1 0" by simp
  with time_Now_mono[OF n2] have m2: "monotone_clock c2 \<and> c1 0 \<le> c2 0" by simp
  from assms(1) n1 n2 have "s' = s" "c' = c2"
    by (auto simp add: ExportSession_def Let_def)
  with access_inv_later[OF assms(2), of c2 s] m1 m2 show ?thesis by auto
qed

lemma step_inv:
  assumes "access_inv \<sigma>"
  shows "access_inv (step \<sigma> x) \<and>
     (\<forall>sid y. sessions (fst \<sigma>) sid = Some y \<longrightarrow>
        (\<exists>y'. sessions (fst (step \<sigma> x)) sid = Some y' \<and>
              sd_LastAccessedAt y \<le> sd_LastAccessedAt y'))"
proof (cases \<sigma>)
  case (Pair s c)
  show ?thesis
  proof (cases x)
    case (Op_AddThought sid t)
    obtain r s' c' where "AddThought c s sid t = (r, s', c')"
      by (cases "AddThought c s sid t") auto
    with AddThought_inv[OF this] assms Pair Op_AddThought show ?thesis by simp
  next
    case (Op_AddMentalModel sid m)
    obtain r s' c' where "AddMentalModel c s sid m = (r, s', c')"
      by (cases "AddMentalModel c s sid m") auto
    with AddMentalModel_inv[OF this] assms Pair Op_AddMentalModel show ?thesis by simp
  next
    case (Op_getSession sid)
    obtain r s' c' where g: "getSession c s sid = (r, s', c')"
      by (cases "getSession c s sid") auto
    with getSession_inv[OF g] getSession_keeps[OF g] assms Pair Op_getSession
    show ?thesis by simp
  next
    case (Op_GetSessionStats sid)
    obtain r s' c' where "GetSessionStats c s sid = (r, s', c')"
      by (cases "GetSessionStats c s sid") auto
    with GetSessionStats_inv[OF this] assms Pair Op_GetSessionStats show ?thesis by simp
  next
    case (Op_ExportSession sid)
    obtain r s' c' where "ExportSession c s sid = (r, s', c')"
      by (cases "ExportSession c s sid") auto
    with ExportSession_inv[OF this] assms Pair Op_ExportSession show ?thesis by simp
  next
    case Op_time_Now
    obtain t1 c1 where n1: "time_Now c = (t1, c1)" by (cases "time_Now c") auto
    from assms Pair have "monotone_clock c" by (simp add: access_inv_def)
    with time_Now_mono[OF n1] access_inv_later[of s c c1 s] assms Pair Op_time_Now n1
    show ?thesis by simp
  qed
qed

lemma run_inv:
  "access_inv \<sigma> \<Longrightarrow> access_inv (run \<sigma> ops) \<and>
     (\<forall>sid y. sessions (fst \<sigma>) sid = Some y \<longrightarrow>
        (\<exists>y'. sessions (fst (run \<sigma> ops)) sid = Some y' \<and>
              sd_LastAccessedAt y \<le> sd_LastAccessedAt y'))"
proof (induction ops arbitrary: \<sigma>)
  case Nil
  then show ?case by (simp add: run_def)
next
  case (Cons x ops)
  from step_inv[OF Cons.prems, of x]
  have i: "access_inv (step \<sigma> x)"
    and l: "\<forall>sid y. sessions (fst \<sigma>) sid = Some y \<longrightarrow>
        (\<exists>y'. sessions (fst (step \<sigma> x)) sid = Some y' \<and>
              sd_LastAccessedAt y \<le> sd_LastAccessedAt y')"
    by auto
  from Cons.IH[OF i] have r: "access_inv (run (step \<sigma> x) ops)"
    and l2: "\<forall>sid y. sessions (fst (step \<sigma> x)) sid = Some y \<longrightarrow>
        (\<exists>y'. sessions (fst (run (step \<sigma> x) ops)) sid = Some y' \<and>
              sd_LastAccessedAt y \<le> sd_LastAccessedAt y')"
    by auto
  have e: "run \<sigma> (x # ops) = run (step \<sigma> x) ops" by (simp add: run_def)
  show ?case unfolding e using r l l2 by (meson order_trans)
qed

lemma run_config: "config (fst (run \<sigma> ops)) = config (fst \<sigma>)"
  by (induction ops arbitrary: \<sigma>) (simp_all add: run_def step_config)

lemma access_inv_empty: "monotone_clock c \<Longrightarrow> access_inv (empty_storage cfg, c)"
  by (simp add: access_inv_def empty_storage_def)


lemma step_count_inv: "count_inv (fst \<sigma>) \<Longrightarrow> count_inv (fst (step \<sigma> x))"
  apply (cases \<sigma>; cases x)
  apply (auto simp add: count_inv_def AddThought_def AddMentalModel_def getSession_def
      new_session_def GetSessionStats_def ExportSession_def generateID_def time_Now_def Let_def
      split: prod.splits option.splits if_splits)
  done

lemma run_count_inv: "count_inv (fst \<sigma>) \<Longrightarrow> count_inv (fst (run \<sigma> ops))"
  by (induction ops arbitrary: \<sigma>) (simp_all add: run_def step_count_inv)

subsection \<open>Counting the successful appends\<close>

lemma step_count:
  "thought_count (fst (step \<sigma> x)) sid = thought_count (fst \<sigma>) sid + int (appended sid \<sigma> [x])"
proof (cases \<sigma>)
  case (Pair s c)
  show ?thesis
  proof (cases x)
    case (Op_AddThought sid' t)
    show ?thesis
    proof (cases "MaxThoughtsPerSession (config s) \<le> thought_count s sid'")
      case True
      with Pair Op_AddThought show ?thesis 
        by (simp add: AddThought_fails_iff AddThought_fail getSession_thought_count)
    next
      case False
      with Pair Op_AddThought show ?thesis 
        by (simp add: AddThought_fails_iff AddThought_count)
    qed
  qed (auto simp add: Pair thought_count_def AddMentalModel_def getSession_def
      new_session_def GetSessionStats_def ExportSession_def generateID_def time_Now_def Let_def
      split: prod.splits option.splits if_splits)
qed

lemma appended_Cons: "appended sid \<sigma> (x # ops) = appended sid \<sigma> [x] + appended sid (step \<sigma> x) ops"
  by (cases x) simp_all

lemma run_count:
  "thought_count (fst (run \<sigma> ops)) sid = thought_count (fst \<sigma>) sid + int (appended sid \<sigma> ops)"
proof (induction ops arbitrary: \<sigma>)
  case Nil
  then show ?case by (simp add: run_def)
next
  case (Cons x ops)
  have "run \<sigma> (x # ops) = run (step \<sigma> x) ops" by (simp add: run_def)
  then show ?case
    using Cons.IH[of "step \<sigma> x"] step_count[of \<sigma> x sid] appended_Cons[of sid \<sigma> x ops]
    by simp
qed

subsection \<open>The result of a successful append\<close>

lemma later_0: "later c 0 = c"
  by (simp add: later_def)

lemma later_later: "later (later c a) b = later c (a + b)"
  by (simp add: later_def ac_simps)

lemma later_apply: "later c k n = c (n + k)"
  by (simp add: later_def)

lemma time_Now_later: "time_Now c = (c 0, later c 1)"
  by (simp add: time_Now_def later_def)

lemma generateID_later: "snd (generateID c) = later c 2"
  by (simp add: generateID_def time_Now_def later_def)

lemma new_session_later: "snd (new_session c cfg sid) = later c 2"
  by (simp add: new_session_def time_Now_def later_def)

lemma getSession_later:
  "snd (snd (getSession c s sid)) = later c (if sessions s sid = None then 2 else 0)"
  using new_session_later[of c "config s" sid]
  by (cases "new_session c (config s) sid")
     (simp add: getSession_def later_0 split: option.splits)

lemma getSession_result:
  "getSession c s sid =
     (fst (getSession c s sid),
      s\<lparr>sessions := (sessions s)(sid \<mapsto> fst (getSession c s sid))\<rparr>,
      later c (if sessions s sid = None then 2 else 0))"
  using new_session_later[of c "config s" sid]
  by (cases "new_session c (config s) sid")
     (auto simp add: getSession_def later_0 fun_upd_idem split: option.splits)

lemma AddThought_success:
  assumes "thought_count s sid < MaxThoughtsPerSession (config s)"
  obtains k i where
    "i \<noteq> []" 
    "td_ID t \<noteq> [] \<longrightarrow> i = td_ID t"
    "td_ID t = [] \<longrightarrow> 2 \<le> k \<and>
        i = Sprintf_d (UnixNano (c (k - 2))) @ ''-'' @ Sprintf_d (Nanosecond (c (k - 1)))"
    "AddThought c s sid t =
       (Inr (t\<lparr>td_ID := i, td_CreatedAt := c k\<rparr>),
        s\<lparr>thoughts := AList.update i (t\<lparr>td_ID := i, td_CreatedAt := c k\<rparr>) (thoughts s),
          sessions := (sessions s)(sid \<mapsto> (fst (getSession c s sid))
             \<lparr>sd_ThoughtCount := thought_count s sid + 1,
              sd_LastAccessedAt := c (Suc k)\<rparr>)\<rparr>,
        later c (k + 2))"
proof -
  define a where "a = (if sessions s sid = None then 2 else 0::nat)"
  define x where "x = fst (getSession c s sid)"
  have g: "getSession c s sid = (x, s\<lparr>sessions := (sessions s)(sid \<mapsto> x)\<rparr>, later c a)"
    unfolding a_def x_def by (rule getSession_result)
  have cnt: "sd_ThoughtCount x = thought_count s sid"
    unfolding x_def by (rule getSession_count)
  show ?thesis
  proof (cases "td_ID t = []")
    case True
    define i where "i = Sprintf_d (UnixNano (c a)) @ ''-'' @ Sprintf_d (Nanosecond (c (a + 1)))"
    have gi: "generateID (later c a) = (i, later c (a + 2))"
      by (simp add: generateID_def time_Now_def later_def i_def ac_simps)
    have i: "i \<noteq> []" by (simp add: i_def Sprintf_d_nonempty)
    have r: "AddThought c s sid t =
       (Inr (t\<lparr>td_ID := i, td_CreatedAt := c (a + 2)\<rparr>),
        s\<lparr>thoughts := AList.update i (t\<lparr>td_ID := i, td_CreatedAt := c (a + 2)\<rparr>) (thoughts s),
          sessions := (sessions s)(sid \<mapsto> (fst (getSession c s sid))
             \<lparr>sd_ThoughtCount := thought_count s sid + 1,
              sd_LastAccessedAt := c (Suc (a + 2))\<rparr>)\<rparr>,
        later c ((a + 2) + 2))"
      using assms True unfolding x_def[symmetric]
      by (simp add: AddThought_def g cnt gi time_Now_later later_later later_apply Let_def)
    have e: "td_ID t = [] \<longrightarrow> 2 \<le> a + 2 \<and> i = Sprintf_d (UnixNano (c ((a + 2) - 2))) @ ''-'' @
        Sprintf_d (Nanosecond (c ((a + 2) - 1)))"
      by (simp add: i_def)
    from True have "td_ID t \<noteq> [] \<longrightarrow> i = td_ID t" by simp
    from that[OF i this e r] show ?thesis .
  next
    case False
    have r: "AddThought c s sid t =
       (Inr (t\<lparr>td_ID := td_ID t, td_CreatedAt := c a\<rparr>),
        s\<lparr>thoughts := AList.update (td_ID t) (t\<lparr>td_ID := td_ID t, td_CreatedAt := c a\<rparr>) (thoughts s),
          sessions := (sessions s)(sid \<mapsto> (fst (getSession c s sid))
             \<lparr>sd_ThoughtCount := thought_count s sid + 1,
              sd_LastAccessedAt := c (Suc a)\<rparr>)\<rparr>,
        later c (a + 2))"
      using assms False unfolding x_def[symmetric]
      by (simp add: AddThought_def g cnt time_Now_later later_later later_apply Let_def)
    from False have e: "td_ID t = [] \<longrightarrow> 2 \<le> a \<and>
        td_ID t = Sprintf_d (UnixNano (c (a - 2))) @ ''-'' @ Sprintf_d (Nanosecond (c (a - 1)))"
      by simp
    have "td_ID t \<noteq> [] \<longrightarrow> td_ID t = td_ID t" by simp
    from that[OF False this e r] show ?thesis .
  qed
qed

lemma getSession_TotalOperations:
  "sd_TotalOperations (fst (getSession c s sid)) =
     (case sessions s sid of None \<Rightarrow> 0 | Some x \<Rightarrow> sd_TotalOperations x)"
  by (simp add: getSession_def new_session_def time_Now_def split: option.splits)

lemma length_update:
  "length (AList.update k v al) = (if k \<in> fst ` set al then length al else length al + 1)"
  using arg_cong[OF update_keys[of k v al], of length] by (simp split: if_splits)

lemma update_member: "(k, v) \<in> set (AList.update k v al)"
  by (induction al) auto

subsection \<open>The thought count and the limit\<close>

text \<open>
  Claim C1. Along every sequence of operations on a new storage, and for every cap, the
  thought count of a session equals the number of thought appends for that session
  that succeeded. An append fails exactly when the session's count is at or above the
  cap, the failure is \<open>ThoughtLimitExceeded\<close>, and a failed append stores no thought,
  changes no session's count and leaves every existing session as it was; a successful
  append raises the count by one. So once the number of successful appends equals the
  cap, the next append fails.
\<close>

theorem AddThought_count_and_limit:
  "thought_count (fst (run (empty_storage cfg, c) ops)) sid =
     int (appended sid (empty_storage cfg, c) ops)
   \<and> (isl (fst (AddThought c' s sid t)) \<longleftrightarrow>
        MaxThoughtsPerSession (config s) \<le> thought_count s sid)
   \<and> (isl (fst (AddThought c' s sid t)) \<longrightarrow>
        fst (AddThought c' s sid t) = Inl (ThoughtLimitExceeded sid) \<and>
        thoughts (fst (snd (AddThought c' s sid t))) = thoughts s \<and>
        mentalModels (fst (snd (AddThought c' s sid t))) = mentalModels s \<and>
        (\<forall>sid'. thought_count (fst (snd (AddThought c' s sid t))) sid' = thought_count s sid') \<and>
        (\<forall>sid' x. sessions s sid' = Some x \<longrightarrow>
           sessions (fst (snd (AddThought c' s sid t))) sid' = Some x))
   \<and> (\<not> isl (fst (AddThought c' s sid t)) \<longrightarrow>
        thought_count (fst (snd (AddThought c' s sid t))) sid = thought_count s sid + 1)
   \<and> (int (appended sid (empty_storage cfg, c) ops) = MaxThoughtsPerSession cfg \<longrightarrow>
        fst (AddThought (snd (run (empty_storage cfg, c) ops))
               (fst (run (empty_storage cfg, c) ops)) sid t) =
          Inl (ThoughtLimitExceeded sid))"
proof -
  let ?\<sigma> = "(empty_storage cfg, c)"
  have n: "thought_count (fst (run ?\<sigma> ops)) sid = int (appended sid ?\<sigma> ops)"
    using run_count[of ?\<sigma> ops sid] by (simp add: thought_count_def empty_storage_def)
  have f: "isl (fst (AddThought c' s sid t)) \<Longrightarrow>
        fst (AddThought c' s sid t) = Inl (ThoughtLimitExceeded sid) \<and>
        thoughts (fst (snd (AddThought c' s sid t))) = thoughts s \<and>
        mentalModels (fst (snd (AddThought c' s sid t))) = mentalModels s \<and>
        (\<forall>sid'. thought_count (fst (snd (AddThought c' s sid t))) sid' = thought_count s sid') \<and>
        (\<forall>sid' x. sessions s sid' = Some x \<longrightarrow>
           sessions (fst (snd (AddThought c' s sid t))) sid' = Some x)"
    by (simp add: AddThought_fails_iff AddThought_fail getSession_thoughts
        getSession_thought_count getSession_existing)
  have k: "\<not> isl (fst (AddThought c' s sid t)) \<Longrightarrow>
        thought_count (fst (snd (AddThought c' s sid t))) sid = thought_count s sid + 1"
    by (simp add: AddThought_fails_iff AddThought_count)
  have l: "int (appended sid ?\<sigma> ops) = MaxThoughtsPerSession cfg \<Longrightarrow>
        fst (AddThought (snd (run ?\<sigma> ops)) (fst (run ?\<sigma> ops)) sid t) =
          Inl (ThoughtLimitExceeded sid)"
  proof -
    assume "int (appended sid ?\<sigma> ops) = MaxThoughtsPerSession cfg"
    with n have "MaxThoughtsPerSession (config (fst (run ?\<sigma> ops))) \<le>
        thought_count (fst (run ?\<sigma> ops)) sid"
      by (simp add: run_config empty_storage_def)
    then show ?thesis by (simp add: AddThought_fail)
  qed
  from n f k l show ?thesis by (simp only: AddThought_fails_iff simp_thms) blast
qed

theorem AddThought_count_and_limit_witness:
  "thought_count (fst (run
       (empty_storage (DefaultConfig\<lparr>MaxThoughtsPerSession := 2\<rparr>), tick_clock)
       [Op_AddThought ''s1'' (thought_lit ''a'' ''x'' 1 3),
        Op_AddThought ''s2'' (thought_lit ''b'' ''y'' 1 3),
        Op_AddThought ''s1'' (thought_lit ''c'' ''z'' 5 3),
        Op_AddThought ''s1'' (thought_lit ''d'' ''w'' 2 3)])) ''s1'' = 2
   \<and> fst (AddThought
       (snd (run (empty_storage (DefaultConfig\<lparr>MaxThoughtsPerSession := 2\<rparr>), tick_clock)
         [Op_AddThought ''s1'' (thought_lit ''a'' ''x'' 1 3),
          Op_AddThought ''s2'' (thought_lit ''b'' ''y'' 1 3),
          Op_AddThought ''s1'' (thought_lit ''c'' ''z'' 5 3),
          Op_AddThought ''s1'' (thought_lit ''d'' ''w'' 2 3)]))
       (fst (run (empty_storage (DefaultConfig\<lparr>MaxThoughtsPerSession := 2\<rparr>), tick_clock)
         [Op_AddThought ''s1'' (thought_lit ''a'' ''x'' 1 3),
          Op_AddThought ''s2'' (thought_lit ''b'' ''y'' 1 3),
          Op_AddThought ''s1'' (thought_lit ''c'' ''z'' 5 3),
          Op_AddThought ''s1'' (thought_lit ''d'' ''w'' 2 3)]))
       ''s1'' (thought_lit ''e'' ''v'' 3 3)) = Inl (ThoughtLimitExceeded ''s1'')"
proof -
  let ?cfg = "DefaultConfig\<lparr>MaxThoughtsPerSession := 2\<rparr>"
  let ?ops = "[Op_AddThought ''s1'' (thought_lit ''a'' ''x'' 1 3),
        Op_AddThought ''s2'' (thought_lit ''b'' ''y'' 1 3),
        Op_AddThought ''s1'' (thought_lit ''c'' ''z'' 5 3),
        Op_AddThought ''s1'' (thought_lit ''d'' ''w'' 2 3)]"
  have a: "appended ''s1'' (empty_storage ?cfg, tick_clock) ?ops = 2"
    by (simp add: AddThought_def getSession_def new_session_def time_Now_def Let_def
        empty_storage_def DefaultConfig_def thought_lit_def tick_clock_def)
  have m: "MaxThoughtsPerSession ?cfg = 2" by simp
  from AddThought_count_and_limit[of ?cfg tick_clock ?ops "''s1''" tick_clock
      "empty_storage ?cfg" "thought_lit ''e'' ''v'' 3 3"]
  show ?thesis unfolding a m by simp
qed

subsection \<open>Invariants of the sessions\<close>

text \<open>
  Claim C3, as stated, fails for a negative cap: the configuration is not validated, and
  a session is created with count 0, which is above a cap of \<open>-1\<close>.
\<close>

theorem count_above_negative_cap:
  "sessions (fst (run (empty_storage (DefaultConfig\<lparr>MaxThoughtsPerSession := - 1\<rparr>), tick_clock)
       [Op_getSession ''s1''])) ''s1'' \<noteq> None
   \<and> \<not> thought_count
        (fst (run (empty_storage (DefaultConfig\<lparr>MaxThoughtsPerSession := - 1\<rparr>), tick_clock)
          [Op_getSession ''s1''])) ''s1''
      \<le> MaxThoughtsPerSession
          (config (fst (run (empty_storage (DefaultConfig\<lparr>MaxThoughtsPerSession := - 1\<rparr>),
             tick_clock) [Op_getSession ''s1''])))"
  by (simp add: run_def getSession_def new_session_def time_Now_def thought_count_def
      empty_storage_def DefaultConfig_def)

text \<open>
  Claim C3, amended. In every state reached from a new storage by a sequence of
  operations, the thought count of every session is at least 0 and at most the larger
  of the cap and 0 (so at most the cap, for a cap that is not negative). If the readings
  of the clock never go back, then after any further sequence of operations the session
  still exists and its last-access time is not earlier than before.
\<close>

theorem session_count_bounded_access_monotone:
  assumes "sessions (fst (run (empty_storage cfg, c) ops)) sid = Some x1"
  shows "0 \<le> sd_ThoughtCount x1 \<and> sd_ThoughtCount x1 \<le> max 0 (MaxThoughtsPerSession cfg) \<and>
     (monotone_clock c \<longrightarrow>
        (\<exists>x2. sessions (fst (run (run (empty_storage cfg, c) ops) ops')) sid = Some x2 \<and>
              sd_LastAccessedAt x1 \<le> sd_LastAccessedAt x2))"
proof -
  let ?\<sigma> = "(empty_storage cfg, c)"
  have "count_inv (fst ?\<sigma>)" by (simp add: count_inv_def empty_storage_def)
  then have "count_inv (fst (run ?\<sigma> ops))" by (rule run_count_inv)
  with assms have b: "0 \<le> sd_ThoughtCount x1 \<and>
      sd_ThoughtCount x1 \<le> max 0 (MaxThoughtsPerSession (config (fst (run ?\<sigma> ops))))"
    unfolding count_inv_def by blast
  have cf: "config (fst (run ?\<sigma> ops)) = cfg"
    by (simp add: run_config empty_storage_def)
  have "\<exists>x2. sessions (fst (run (run ?\<sigma> ops) ops')) sid = Some x2 \<and>
              sd_LastAccessedAt x1 \<le> sd_LastAccessedAt x2" if m: "monotone_clock c"
  proof -
    from m have "access_inv ?\<sigma>" by (rule access_inv_empty)
    then have "access_inv (run ?\<sigma> ops)" using run_inv by blast
    from run_inv[OF this, of ops'] assms show ?thesis by blast
  qed
  with b cf show ?thesis by simp
qed

theorem session_count_bounded_access_monotone_witness:
  "monotone_clock tick_clock \<and>
   (\<exists>x1. sessions (fst (run (empty_storage DefaultConfig, tick_clock)
              [Op_AddThought ''s1'' (thought_lit ''a'' ''x'' 1 3)])) ''s1'' = Some x1 \<and>
      0 \<le> sd_ThoughtCount x1 \<and> sd_ThoughtCount x1 \<le> 100 \<and>
      (\<exists>x2. sessions (fst (run (run (empty_storage DefaultConfig, tick_clock)
                 [Op_AddThought ''s1'' (thought_lit ''a'' ''x'' 1 3)])
                 [Op_GetSessionStats ''s1'', Op_AddThought ''s1'' (thought_lit ''b'' ''y'' 2 3)]))
               ''s1'' = Some x2 \<and>
            sd_LastAccessedAt x1 \<le> sd_LastAccessedAt x2))"
proof -
  let ?ops = "[Op_AddThought ''s1'' (thought_lit ''a'' ''x'' 1 3)]"
  have m: "monotone_clock tick_clock"
    by (simp add: monotone_clock_def tick_clock_def)
  have "sessions (fst (run (empty_storage DefaultConfig, tick_clock) ?ops)) ''s1'' \<noteq> None"
    by (simp add: run_def AddThought_def getSession_def new_session_def time_Now_def Let_def
        empty_storage_def DefaultConfig_def thought_lit_def tick_clock_def)
  then obtain x1 where
    x1: "sessions (fst (run (empty_storage DefaultConfig, tick_clock) ?ops)) ''s1'' = Some x1"
    by blast
  have d: "MaxThoughtsPerSession DefaultConfig = 100" by (simp add: DefaultConfig_def)
  from session_count_bounded_access_monotone[OF x1,
      of "[Op_GetSessionStats ''s1'', Op_AddThought ''s1'' (thought_lit ''b'' ''y'' 2 3)]"]
    m x1 d
  show ?thesis by simp
qed

subsection \<open>No validation of the sequence numbers\<close>

text \<open>
  Claim C9. For a session below its cap, the append of any thought succeeds, whatever
  its \<^verbatim>\<open>ThoughtNumber\<close> and \<^verbatim>\<open>TotalThoughts\<close> are and whatever the storage holds: the
  thought is stored under its identifier with its text and both numbers as submitted,
  and \<^verbatim>\<open>GetThoughts\<close> returns it.
\<close>

theorem AddThought_accepts_any_numbers:
  assumes "thought_count s sid < MaxThoughtsPerSession (config s)"
  shows "\<exists>t' s' c'. AddThought c s sid t = (Inr t', s', c') \<and>
      td_Thought t' = td_Thought t \<and>
      td_ThoughtNumber t' = td_ThoughtNumber t \<and>
      td_TotalThoughts t' = td_TotalThoughts t \<and>
      map_of (thoughts s') (td_ID t') = Some t' \<and>
      t' \<in> set (drop_error (GetThoughts s' sid))"
proof -
  from assms obtain k i where
    "i \<noteq> []" "td_ID t \<noteq> [] \<longrightarrow> i = td_ID t"
    "td_ID t = [] \<longrightarrow> 2 \<le> k \<and>
        i = Sprintf_d (UnixNano (c (k - 2))) @ ''-'' @ Sprintf_d (Nanosecond (c (k - 1)))"
    "AddThought c s sid t =
       (Inr (t\<lparr>td_ID := i, td_CreatedAt := c k\<rparr>),
        s\<lparr>thoughts := AList.update i (t\<lparr>td_ID := i, td_CreatedAt := c k\<rparr>) (thoughts s),
          sessions := (sessions s)(sid \<mapsto> (fst (getSession c s sid))
             \<lparr>sd_ThoughtCount := thought_count s sid + 1,
              sd_LastAccessedAt := c (Suc k)\<rparr>)\<rparr>,
        later c (k + 2))" by (rule AddThought_success)
  moreover have "t\<lparr>td_ID := i, td_CreatedAt := c k\<rparr> \<in>
      snd ` set (AList.update i (t\<lparr>td_ID := i, td_CreatedAt := c k\<rparr>) (thoughts s))"
    using update_member[of i "t\<lparr>td_ID := i, td_CreatedAt := c k\<rparr>" "thoughts s"]
    by force
  ultimately show ?thesis
    by (simp add: update_conv' GetThoughts_def drop_error_def)
qed

theorem AddThought_accepts_any_numbers_witness:
  "thought_count (fst (run (empty_storage DefaultConfig, tick_clock)
        [Op_AddThought ''s1'' (thought_lit ''a'' ''x'' 5 3)])) ''s1''
     < MaxThoughtsPerSession (config (fst (run (empty_storage DefaultConfig, tick_clock)
        [Op_AddThought ''s1'' (thought_lit ''a'' ''x'' 5 3)])))
   \<and> td_TotalThoughts (thought_lit ''b'' ''y'' 9 2) < td_ThoughtNumber (thought_lit ''b'' ''y'' 9 2)
   \<and> (\<exists>t' s' c'.
        AddThought tick_clock
          (fst (run (empty_storage DefaultConfig, tick_clock)
             [Op_AddThought ''s1'' (thought_lit ''a'' ''x'' 5 3)]))
          ''s1'' (thought_lit ''b'' ''y'' 9 2) = (Inr t', s', c') \<and>
        td_Thought t' = ''y'' \<and> td_ThoughtNumber t' = 9 \<and> td_TotalThoughts t' = 2 \<and>
        map_of (thoughts s') (td_ID t') = Some t' \<and>
        t' \<in> set (drop_error (GetThoughts s' ''s1'')))"
proof -
  let ?s = "fst (run (empty_storage DefaultConfig, tick_clock)
             [Op_AddThought ''s1'' (thought_lit ''a'' ''x'' 5 3)])"
  have h: "thought_count ?s ''s1'' < MaxThoughtsPerSession (config ?s)"
    by (simp add: run_def AddThought_def getSession_def new_session_def time_Now_def Let_def
        thought_count_def empty_storage_def DefaultConfig_def thought_lit_def tick_clock_def)
  have n: "td_Thought (thought_lit ''b'' ''y'' 9 2) = ''y''"
    "td_ThoughtNumber (thought_lit ''b'' ''y'' 9 2) = 9"
    "td_TotalThoughts (thought_lit ''b'' ''y'' 9 2) = 2"
    by (simp_all add: thought_lit_def)
  from AddThought_accepts_any_numbers[OF h, of tick_clock "thought_lit ''b'' ''y'' 9 2"] h n
  show ?thesis by simp
qed

subsection \<open>The effects of a successful append\<close>

text \<open>
  Claim C6, as stated, fails in one point: no code changes \<^verbatim>\<open>TotalOperations\<close> of a
  session. A session exists with \<^verbatim>\<open>TotalOperations\<close> 0, an append to it succeeds, and
  the field is still 0, not 1.
\<close>

theorem AddThought_keeps_TotalOperations:
  "\<not> isl (fst (AddThought tick_clock
       (fst (run (empty_storage DefaultConfig, tick_clock) [Op_getSession ''s1'']))
       ''s1'' (thought_lit ''a'' ''x'' 1 3)))
   \<and> map_option sd_TotalOperations
        (sessions (fst (run (empty_storage DefaultConfig, tick_clock) [Op_getSession ''s1'']))
           ''s1'') = Some 0
   \<and> map_option sd_TotalOperations
        (sessions (fst (snd (AddThought tick_clock
           (fst (run (empty_storage DefaultConfig, tick_clock) [Op_getSession ''s1'']))
           ''s1'' (thought_lit ''a'' ''x'' 1 3)))) ''s1'') = Some 0"
  by (simp add: run_def AddThought_def getSession_def new_session_def time_Now_def Let_def
      empty_storage_def DefaultConfig_def thought_lit_def tick_clock_def)

text \<open>
  Claim C6, amended. A successful append returns the thought with an identifier that is
  not empty: the caller's, if there was one, and otherwise a generated one, made of two
  readings of the clock. It stamps the creation time with a reading of the clock and
  changes no other field of the thought. It stores the thought under its identifier;
  the store grows by one entry unless the identifier was present, in which case
  the thought replaces the one stored under it. It raises the session's thought count
  by one and sets the session's last-access time to the next reading of the clock. The
  session's \<^verbatim>\<open>TotalOperations\<close> stays what it was (0 for a session created by this call).
\<close>

theorem AddThought_effects:
  assumes "fst (AddThought c s sid t) = Inr t'"
  shows "\<exists>k. t' = t\<lparr>td_ID := td_ID t', td_CreatedAt := c k\<rparr> \<and>
     td_ID t' \<noteq> [] \<and>
     (td_ID t \<noteq> [] \<longrightarrow> td_ID t' = td_ID t) \<and>
     (td_ID t = [] \<longrightarrow> 2 \<le> k \<and>
        td_ID t' = Sprintf_d (UnixNano (c (k - 2))) @ ''-'' @ Sprintf_d (Nanosecond (c (k - 1)))) \<and>
     map_of (thoughts (fst (snd (AddThought c s sid t)))) (td_ID t') = Some t' \<and>
     int (length (thoughts (fst (snd (AddThought c s sid t))))) =
       int (length (thoughts s)) + (if td_ID t' \<in> fst ` set (thoughts s) then 0 else 1) \<and>
     thought_count (fst (snd (AddThought c s sid t))) sid = thought_count s sid + 1 \<and>
     (\<exists>x'. sessions (fst (snd (AddThought c s sid t))) sid = Some x' \<and>
        sd_LastAccessedAt x' = c (Suc k) \<and>
        sd_TotalOperations x' =
          (case sessions s sid of None \<Rightarrow> 0 | Some x \<Rightarrow> sd_TotalOperations x))"
proof -
  from assms have "\<not> isl (fst (AddThought c s sid t))" by simp
  then have lt: "thought_count s sid < MaxThoughtsPerSession (config s)"
    by (simp add: AddThought_fails_iff)
  from lt obtain k i where
    i: "i \<noteq> []" "td_ID t \<noteq> [] \<longrightarrow> i = td_ID t"
      "td_ID t = [] \<longrightarrow> 2 \<le> k \<and>
        i = Sprintf_d (UnixNano (c (k - 2))) @ ''-'' @ Sprintf_d (Nanosecond (c (k - 1)))"
    and r: "AddThought c s sid t =
       (Inr (t\<lparr>td_ID := i, td_CreatedAt := c k\<rparr>),
        s\<lparr>thoughts := AList.update i (t\<lparr>td_ID := i, td_CreatedAt := c k\<rparr>) (thoughts s),
          sessions := (sessions s)(sid \<mapsto> (fst (getSession c s sid))
             \<lparr>sd_ThoughtCount := thought_count s sid + 1,
              sd_LastAccessedAt := c (Suc k)\<rparr>)\<rparr>,
        later c (k + 2))" by (rule AddThought_success)
  from r assms have t': "t' = t\<lparr>td_ID := i, td_CreatedAt := c k\<rparr>" by simp
  then have id: "td_ID t' = i" by simp
  show ?thesis
    apply (rule exI[of _ k])
    using i
    apply (simp add: r t' update_conv' length_update thought_count_def getSession_TotalOperations)
    done
qed

theorem AddThought_effects_witness:
  "fst (AddThought tick_clock (empty_storage DefaultConfig) ''s1'' (thought_lit [] ''x'' 1 3)) =
     Inr ((thought_lit ''1002-1003'' ''x'' 1 3)\<lparr>td_CreatedAt := 1004\<rparr>)
   \<and> thought_count (fst (snd (AddThought tick_clock (empty_storage DefaultConfig) ''s1''
          (thought_lit [] ''x'' 1 3)))) ''s1'' = 1
   \<and> (\<exists>x'. sessions (fst (snd (AddThought tick_clock (empty_storage DefaultConfig) ''s1''
          (thought_lit [] ''x'' 1 3)))) ''s1'' = Some x' \<and>
        sd_TotalOperations x' = 0)"
proof -
  have h: "fst (AddThought tick_clock (empty_storage DefaultConfig) ''s1''
       (thought_lit [] ''x'' 1 3)) =
     Inr ((thought_lit ''1002-1003'' ''x'' 1 3)\<lparr>td_CreatedAt := 1004\<rparr>)"
    by (simp add: AddThought_def getSession_def new_session_def time_Now_def Let_def
        generateID_def Sprintf_d_def UnixNano_def Nanosecond_def decimal.simps digit_char_def
        empty_storage_def DefaultConfig_def thought_lit_def tick_clock_def)
  have z: "thought_count (empty_storage DefaultConfig) ''s1'' = 0"
    "sessions (empty_storage DefaultConfig) ''s1'' = None"
    by (simp_all add: thought_count_def empty_storage_def)
  from AddThought_effects[OF h] z h show ?thesis by auto
qed

subsection \<open>Statistics and export\<close>

lemma GetSessionStats_fields:
  obtains stats where
    "GetSessionStats c s sid = (Inr stats, snd (getSession c s sid))"
    "st_ThoughtCount stats = int (length (thoughts s))"
    "st_RemainingThoughts stats = MaxThoughtsPerSession (config s) - int (length (thoughts s))"
    "st_TotalOperations stats = int (length (thoughts s)) + int (length (mentalModels s))"
    "set (st_ToolsUsed stats) =
       (if thoughts s = [] then {} else {''sequential-thinking''}) \<union>
       (if mentalModels s = [] then {} else {''mental-model''})"
    "stores_count stats ''mental_models'' = Inr (int (length (mentalModels s)))"
proof -
  obtain x s1 c1 where g: "getSession c s sid = (x, s1, c1)"
    by (cases "getSession c s sid") auto
  from getSession_keeps[OF g]
  have k: "config s1 = config s" "thoughts s1 = thoughts s" "mentalModels s1 = mentalModels s"
    by simp_all
  define stats where "stats =
     \<lparr>st_SessionID = sid,
      st_CreatedAt = sd_CreatedAt x,
      st_LastAccessedAt = sd_LastAccessedAt x,
      st_ThoughtCount = int (length (thoughts s)),
      st_ToolsUsed = (if length (thoughts s) > 0 then [''sequential-thinking''] else []) @
                     (if length (mentalModels s) > 0 then [''mental-model''] else []),
      st_TotalOperations = int (length (thoughts s)) + int (length (mentalModels s)),
      st_IsActive = sd_IsActive x,
      st_RemainingThoughts = MaxThoughtsPerSession (config s) - int (length (thoughts s)),
      st_Stores =
        [(''thoughts'', [(''count'', int (length (thoughts s)))]),
         (''mental_models'', [(''count'', int (length (mentalModels s)))])]\<rparr>"
  have 1: "GetSessionStats c s sid = (Inr stats, snd (getSession c s sid))"
    by (simp add: GetSessionStats_def g k GetThoughts_def GetMentalModels_def drop_error_def
        Let_def stats_def)
  have 2: "st_ThoughtCount stats = int (length (thoughts s))"
    and 3: "st_RemainingThoughts stats =
        MaxThoughtsPerSession (config s) - int (length (thoughts s))"
    and 4: "st_TotalOperations stats = int (length (thoughts s)) + int (length (mentalModels s))"
    by (simp_all add: stats_def)
  have 5: "set (st_ToolsUsed stats) =
       (if thoughts s = [] then {} else {''sequential-thinking''}) \<union>
       (if mentalModels s = [] then {} else {''mental-model''})"
    by (simp add: stats_def)
  have 6: "stores_count stats ''mental_models'' = Inr (int (length (mentalModels s)))"
    by (simp add: stats_def stores_count_def)
  from that[OF 1 2 3 4 5 6] show ?thesis .
qed

lemma AddThought_config: "config (fst (snd (AddThought c s sid t))) = config s"
  using step_config[of "(s, c)" "Op_AddThought sid t"] by simp

text \<open>
  Claim C7, as stated, fails for the export: \<^verbatim>\<open>ExportSession\<close> does not call
  \<^verbatim>\<open>getSession\<close>, so after the export of a session that was never seen the strict
  lookup still fails.
\<close>

theorem ExportSession_creates_no_session:
  "GetSession (fst (snd (ExportSession tick_clock (empty_storage DefaultConfig) ''s1''))) ''s1''
     = Inl (SessionNotFound ''s1'')"
  by (simp add: ExportSession_def GetSession_def time_Now_def Let_def empty_storage_def)

text \<open>
  Claim C7, amended. For every session identifier, storage and clock, \<^verbatim>\<open>GetSessionStats\<close>
  and \<^verbatim>\<open>ExportSession\<close> return no error. After \<^verbatim>\<open>GetSessionStats\<close> the session
  exists: the strict lookup \<^verbatim>\<open>GetSession\<close> succeeds, also for an identifier never seen
  before. \<^verbatim>\<open>ExportSession\<close> leaves the storage as it is and creates no session.
\<close>

theorem stats_and_export_never_fail:
  "(\<exists>stats. fst (GetSessionStats c s sid) = Inr stats)
   \<and> (\<exists>export. fst (ExportSession c s sid) = Inr export)
   \<and> (\<exists>session. GetSession (fst (snd (GetSessionStats c s sid))) sid = Inr session)
   \<and> fst (snd (ExportSession c s sid)) = s"
proof -
  obtain stats where g: "GetSessionStats c s sid = (Inr stats, snd (getSession c s sid))"
    by (rule GetSessionStats_fields)
  have 1: "\<exists>stats. fst (GetSessionStats c s sid) = Inr stats"
    by (simp add: g)
  have 2: "\<exists>export. fst (ExportSession c s sid) = Inr export"
    by (simp add: ExportSession_def Let_def split: prod.splits)
  have 3: "\<exists>session. GetSession (fst (snd (GetSessionStats c s sid))) sid = Inr session"
    by (simp add: g GetSession_def getSession_stored)
  have 4: "fst (snd (ExportSession c s sid)) = s"
    by (simp add: ExportSession_def Let_def split: prod.splits)
  from 1 2 3 4 show ?thesis by (intro conjI)
qed

subsection \<open>The remaining thoughts that the sequential-thinking tool reports\<close>

lemma handleSequentialThinking_cases:
  assumes "fst (handleSequentialThinking c s sid th n k b) = Inr resp"
  obtains stats s1 c3 where
    "GetSessionStats c3 s1 sid = (Inr stats, snd (handleSequentialThinking c s sid th n k b))"
    "config s1 = config s"
    "sr_total_thoughts resp = st_ThoughtCount stats"
    "sr_remaining_thoughts resp = 100 - st_ThoughtCount stats"
proof -
  obtain t1 c1 where n1: "time_Now c = (t1, c1)" by (cases "time_Now c") auto
  obtain t2 c2 where n2: "time_Now c1 = (t2, c2)" by (cases "time_Now c1") auto
  define td where "td =
      \<lparr>td_ID = Sprintf_d (UnixNano t1) @ ''-'' @ Sprintf_d n,
       td_Thought = th, td_ThoughtNumber = n, td_TotalThoughts = k,
       td_IsRevision = False, td_RevisesThought = None, td_BranchFromThought = None,
       td_BranchID = [], td_NeedsMoreThoughts = False, td_NextThoughtNeeded = b,
       td_CreatedAt = t2\<rparr>"
  obtain r s1 c3 where a: "AddThought c2 s sid td = (r, s1, c3)"
    by (cases "AddThought c2 s sid td") auto
  have s1: "config s1 = config s"
    using AddThought_config[of c2 s sid td] a by simp
  obtain q s2 c4 where g: "GetSessionStats c3 s1 sid = (q, s2, c4)"
    by (cases "GetSessionStats c3 s1 sid") auto
  have u: "handleSequentialThinking c s sid th n k b =
     (case r of Inl err \<Rightarrow> (Inl err, s1, c3)
      | Inr td1 \<Rightarrow>
         (case q of Inl err \<Rightarrow> (Inl err, s2, c4)
          | Inr stats \<Rightarrow>
             (Inr \<lparr>sr_status = ''success'', sr_thought_id = td_ID td1, sr_session_id = sid,
                   sr_total_thoughts = st_ThoughtCount stats,
                   sr_remaining_thoughts = 100 - st_ThoughtCount stats\<rparr>, s2, c4)))"
    unfolding handleSequentialThinking_def n1 n2 prod.case Let_def td_def[symmetric] a g
    by (simp split: sum.splits)
  from assms u obtain td1 where r: "r = Inr td1" by (cases r) auto
  from assms u r obtain stats where q: "q = Inr stats" by (cases q) auto
  from assms u r q have 3: "sr_total_thoughts resp = st_ThoughtCount stats"
    and 4: "sr_remaining_thoughts resp = 100 - st_ThoughtCount stats"
    by auto
  from u r q g have 1: "GetSessionStats c3 s1 sid =
      (Inr stats, snd (handleSequentialThinking c s sid th n k b))" by simp
  from that[OF 1 s1 3 4] show ?thesis .
qed

text \<open>
  Claim C10. When \<^verbatim>\<open>handleSequentialThinking\<close> succeeds, the total it reports is the
  number of thoughts in the storage it leaves, which is the thought count of the
  statistics of that storage, and the remaining thoughts it reports are 100 minus that
  count, whatever the configured cap is. \<^verbatim>\<open>GetSessionStats\<close> computes the cap minus the
  count; so for a cap other than 100 the two values differ.
\<close>

theorem handleSequentialThinking_remaining:
  assumes "fst (handleSequentialThinking c s sid th n k b) = Inr resp"
  shows "sr_total_thoughts resp =
       int (length (thoughts (fst (snd (handleSequentialThinking c s sid th n k b)))))
   \<and> sr_remaining_thoughts resp = 100 - sr_total_thoughts resp
   \<and> config (fst (snd (handleSequentialThinking c s sid th n k b))) = config s
   \<and> (\<exists>stats.
        fst (GetSessionStats c'' (fst (snd (handleSequentialThinking c s sid th n k b))) sid) =
          Inr stats \<and>
        st_ThoughtCount stats = sr_total_thoughts resp \<and>
        st_RemainingThoughts stats = MaxThoughtsPerSession (config s) - st_ThoughtCount stats \<and>
        (MaxThoughtsPerSession (config s) \<noteq> 100 \<longrightarrow>
           sr_remaining_thoughts resp \<noteq> st_RemainingThoughts stats \<and>
           sr_remaining_thoughts resp \<noteq>
             MaxThoughtsPerSession (config s) - st_ThoughtCount stats))"
proof -
  let ?h = "handleSequentialThinking c s sid th n k b"
  from assms obtain stats s1 c3 where
    g0: "GetSessionStats c3 s1 sid = (Inr stats, snd ?h)"
    and s1: "config s1 = config s"
    and resp: "sr_total_thoughts resp = st_ThoughtCount stats"
      "sr_remaining_thoughts resp = 100 - st_ThoughtCount stats"
    by (rule handleSequentialThinking_cases)
  obtain stats0 where
    g: "GetSessionStats c3 s1 sid = (Inr stats0, snd (getSession c3 s1 sid))"
    and f0: "st_ThoughtCount stats0 = int (length (thoughts s1))"
    by (rule GetSessionStats_fields)
  from g g0 have "stats0 = stats" and s': "snd ?h = snd (getSession c3 s1 sid)" by simp_all
  with f0 have f: "st_ThoughtCount stats = int (length (thoughts s1))" by simp
  have th': "thoughts (fst (snd ?h)) = thoughts s1" and cf: "config (fst (snd ?h)) = config s"
    by (simp_all add: s' getSession_thoughts getSession_config s1)
  obtain stats' where
    g': "GetSessionStats c'' (fst (snd ?h)) sid =
           (Inr stats', snd (getSession c'' (fst (snd ?h)) sid))"
    and f': "st_ThoughtCount stats' = int (length (thoughts (fst (snd ?h))))"
      "st_RemainingThoughts stats' =
         MaxThoughtsPerSession (config (fst (snd ?h))) - int (length (thoughts (fst (snd ?h))))"
    by (rule GetSessionStats_fields)
  have "fst (GetSessionStats c'' (fst (snd ?h)) sid) = Inr stats' \<and>
        st_ThoughtCount stats' = sr_total_thoughts resp \<and>
        st_RemainingThoughts stats' = MaxThoughtsPerSession (config s) - st_ThoughtCount stats' \<and>
        (MaxThoughtsPerSession (config s) \<noteq> 100 \<longrightarrow>
           sr_remaining_thoughts resp \<noteq> st_RemainingThoughts stats' \<and>
           sr_remaining_thoughts resp \<noteq>
             MaxThoughtsPerSession (config s) - st_ThoughtCount stats')"
    using resp f by (simp add: g' f' th' cf)
  then have e: "\<exists>stats.
        fst (GetSessionStats c'' (fst (snd ?h)) sid) = Inr stats \<and>
        st_ThoughtCount stats = sr_total_thoughts resp \<and>
        st_RemainingThoughts stats = MaxThoughtsPerSession (config s) - st_ThoughtCount stats \<and>
        (MaxThoughtsPerSession (config s) \<noteq> 100 \<longrightarrow>
           sr_remaining_thoughts resp \<noteq> st_RemainingThoughts stats \<and>
           sr_remaining_thoughts resp \<noteq>
             MaxThoughtsPerSession (config s) - st_ThoughtCount stats)"
    by (rule exI)
  have t: "sr_total_thoughts resp = int (length (thoughts (fst (snd ?h))))"
    by (simp add: resp f th')
  have m: "sr_remaining_thoughts resp = 100 - sr_total_thoughts resp"
    by (simp add: resp)
  from t m cf e show ?thesis by (intro conjI)
qed

theorem handleSequentialThinking_remaining_witness:
  "fst (handleSequentialThinking tick_clock
       (empty_storage (DefaultConfig\<lparr>MaxThoughtsPerSession := 5\<rparr>)) ''s1'' ''x'' 1 3 True) =
     Inr \<lparr>sr_status = ''success'', sr_thought_id = ''1000-1'', sr_session_id = ''s1'',
          sr_total_thoughts = 1, sr_remaining_thoughts = 99\<rparr>
   \<and> (\<exists>stats.
        fst (GetSessionStats tick_clock
          (fst (snd (handleSequentialThinking tick_clock
             (empty_storage (DefaultConfig\<lparr>MaxThoughtsPerSession := 5\<rparr>)) ''s1'' ''x'' 1 3 True)))
          ''s1'') = Inr stats \<and>
        st_ThoughtCount stats = 1 \<and>
        st_RemainingThoughts stats = 4)"
proof -
  let ?s = "empty_storage (DefaultConfig\<lparr>MaxThoughtsPerSession := 5\<rparr>)"
  have h: "fst (handleSequentialThinking tick_clock ?s ''s1'' ''x'' 1 3 True) =
     Inr \<lparr>sr_status = ''success'', sr_thought_id = ''1000-1'', sr_session_id = ''s1'',
          sr_total_thoughts = 1, sr_remaining_thoughts = 99\<rparr>"
    by (simp add: handleSequentialThinking_def AddThought_def GetSessionStats_def
        GetThoughts_def GetMentalModels_def drop_error_def getSession_def new_session_def
        time_Now_def Let_def Sprintf_d_def UnixNano_def decimal.simps digit_char_def
        empty_storage_def DefaultConfig_def tick_clock_def)
  have m: "MaxThoughtsPerSession (config ?s) = 5"
    by (simp add: empty_storage_def)
  from handleSequentialThinking_remaining[OF h, of tick_clock] h m show ?thesis by auto
qed

subsection \<open>The \<^verbatim>\<open>mental_model\<close> tool and the built-in catalog\<close>

lemma core_models_first_principles:
  "map_of core_models ''first_principles'' =
     Some \<lparr>mm_Name = ''First Principles Thinking'',
           mm_Description = ''Break down complex problems into fundamental components'',
           mm_Steps = [''Identify the problem clearly'',
                       ''Break it down into basic components'',
                       ''Question assumptions'',
                       ''Build up from the basics''],
           mm_Category = ''analytical'',
           mm_Priority = 0\<rparr>"
  by (simp add: core_models_def MentalModels_def)

lemma merge_keeps_other_keys:
  "key \<notin> fst ` set custom \<Longrightarrow>
   map_of (foldl (\<lambda>models (key, model). AList.update key model models) models0 custom) key =
     map_of models0 key"
  by (induction custom arbitrary: models0) (auto simp add: update_conv')

lemma merge_keeps_defined:
  "map_of models0 key \<noteq> None \<Longrightarrow>
   map_of (foldl (\<lambda>models (key, model). AList.update key model models) models0 custom) key
     \<noteq> None"
  by (induction custom arbitrary: models0) (auto simp add: update_conv')

lemma merge_takes_custom:
  "distinct (map fst custom) \<Longrightarrow> map_of custom key = Some model \<Longrightarrow>
   map_of (foldl (\<lambda>models (key, model). AList.update key model models) models0 custom) key =
     Some model"
proof (induction custom arbitrary: models0)
  case Nil
  then show ?case by simp
next
  case (Cons p custom)
  obtain k v where p: "p = (k, v)" by (cases p)
  show ?case
  proof (cases "k = key")
    case True
    with Cons.prems p have v: "v = model" and n: "key \<notin> fst ` set custom" by auto
    from merge_keeps_other_keys[OF n, of "AList.update k v models0"] True v p
    show ?thesis by (simp add: update_conv')
  next
    case False
    with Cons.prems p have "distinct (map fst custom)" "map_of custom key = Some model"
      by auto
    from Cons.IH[OF this, of "AList.update k v models0"] p show ?thesis by simp
  qed
qed

lemma loadCustomModels_panics: "loadCustomModels fs path = None \<longleftrightarrow> Stat fs path = Stat_Error"
  by (simp add: loadCustomModels_def split: stat_result.splits sum.splits)

lemma LoadMentalModels_panics:
  "LoadMentalModels fs path = None \<longleftrightarrow> path \<noteq> [] \<and> Stat fs path = Stat_Error"
  using loadCustomModels_panics[of fs path]
  by (auto simp add: LoadMentalModels_def split: option.splits sum.splits)

lemma mental_model_tool_panics:
  "MentalModelsPath cfg \<noteq> [] \<Longrightarrow> Stat fs (MentalModelsPath cfg) = Stat_Error \<Longrightarrow>
   mental_model_tool fs cfg c s sid name problem steps = (Inl NilDereference, s, c)"
  using LoadMentalModels_panics[of fs "MentalModelsPath cfg"]
  by (simp add: mental_model_tool_def)

lemma LoadMentalModels_first_principles:
  assumes "MentalModelsPath cfg \<noteq> [] \<longrightarrow> Stat fs (MentalModelsPath cfg) \<noteq> Stat_Error"
  obtains models model where
    "LoadMentalModels fs (MentalModelsPath cfg) = Some (Inr models)"
    "map_of models ''first_principles'' = Some model"
    "(MentalModelsPath cfg \<noteq> [] \<longrightarrow>
       (\<forall>custom. loadCustomModels fs (MentalModelsPath cfg) = Some (Inr custom) \<longrightarrow>
          ''first_principles'' \<notin> fst ` set custom)) \<longrightarrow>
     map_of core_models ''first_principles'' = Some model"
    "\<forall>custom model'. MentalModelsPath cfg \<noteq> [] \<and>
       loadCustomModels fs (MentalModelsPath cfg) = Some (Inr custom) \<and>
       distinct (map fst custom) \<and> map_of custom ''first_principles'' = Some model' \<longrightarrow>
       model' = model"
proof -
  let ?path = "MentalModelsPath cfg"
  have c: "map_of core_models ''first_principles'' \<noteq> None"
    by (simp add: core_models_first_principles)
  show ?thesis
  proof (cases "?path \<noteq> [] \<and> (\<exists>custom. loadCustomModels fs ?path = Some (Inr custom))")
    case False
    from assms have "?path \<noteq> [] \<longrightarrow> loadCustomModels fs ?path \<noteq> None"
      by (simp add: loadCustomModels_panics)
    with False have l: "LoadMentalModels fs ?path = Some (Inr core_models)"
      by (auto simp add: LoadMentalModels_def split: option.splits sum.splits)
    from c obtain model where m: "map_of core_models ''first_principles'' = Some model"
      by blast
    from False have "\<forall>custom model'. ?path \<noteq> [] \<and>
       loadCustomModels fs ?path = Some (Inr custom) \<and>
       distinct (map fst custom) \<and> map_of custom ''first_principles'' = Some model' \<longrightarrow>
       model' = model" by blast
    from that[OF l m _ this] m show ?thesis by simp
  next
    case True
    then obtain custom where i: "loadCustomModels fs ?path = Some (Inr custom)"
      and p: "?path \<noteq> []" by blast
    let ?models = "foldl (\<lambda>models (key, model). AList.update key model models)
        core_models custom"
    from p i have l: "LoadMentalModels fs ?path = Some (Inr ?models)"
      by (simp add: LoadMentalModels_def)
    from merge_keeps_defined[OF c, of custom]
    obtain model where m: "map_of ?models ''first_principles'' = Some model" by blast
    have 3: "(?path \<noteq> [] \<longrightarrow>
       (\<forall>custom. loadCustomModels fs ?path = Some (Inr custom) \<longrightarrow>
          ''first_principles'' \<notin> fst ` set custom)) \<longrightarrow>
       map_of core_models ''first_principles'' = Some model"
      using p i m merge_keeps_other_keys[of "''first_principles''" custom core_models]
      by auto
    have 4: "\<forall>custom model'. ?path \<noteq> [] \<and>
       loadCustomModels fs ?path = Some (Inr custom) \<and>
       distinct (map fst custom) \<and> map_of custom ''first_principles'' = Some model' \<longrightarrow>
       model' = model"
      using i m merge_takes_custom[of custom "''first_principles''" _ core_models]
      by auto
    from that[OF l m 3 4] show ?thesis .
  qed
qed

lemma GetSessionStats_not_Inl: "GetSessionStats c s sid \<noteq> (Inl e, s', c')"
  by (simp add: GetSessionStats_def Let_def split: prod.splits)

lemma GetSessionStats_stores:
  assumes "GetSessionStats c s sid = (Inr stats, s', c')"
  shows "stores_count stats ''mental_models'' = Inr (int (length (mentalModels s)))"
proof -
  obtain stats0 where
    "GetSessionStats c s sid = (Inr stats0, snd (getSession c s sid))"
    "stores_count stats0 ''mental_models'' = Inr (int (length (mentalModels s)))"
    by (rule GetSessionStats_fields)
  with assms show ?thesis by simp
qed

lemma mental_model_tool_uses_entry:
  assumes "LoadMentalModels fs (MentalModelsPath cfg) = Some (Inr models)"
    and "map_of models name = Some model"
  obtains resp where
    "fst (mental_model_tool fs cfg c s sid name problem []) = Inr resp"
    "mr_status resp = ''success''"
    "mr_steps_used resp = mm_Steps model"
    "mr_model_info_category resp = mm_Category model"
proof -
  have "\<exists>resp.
     fst (mental_model_tool fs cfg c s sid name problem []) = Inr resp \<and>
     mr_status resp = ''success'' \<and> mr_steps_used resp = mm_Steps model \<and>
     mr_model_info_category resp = mm_Category model"
    by (auto simp add: mental_model_tool_def assms Let_def GetSessionStats_not_Inl
        dest: GetSessionStats_stores split: prod.splits sum.splits)
  then show ?thesis using that by (elim exE conjE)
qed

text \<open>
  Claim C8, as stated, fails in two ways. When a custom model file defines
  \<^verbatim>\<open>first_principles\<close>, the custom models are merged over the core models and replace
  them, so the tool reports the steps and the category of the custom definition. And
  when \<^verbatim>\<open>os.Stat\<close> fails on the configured path with an error other than not-exist, the
  loader panics and the tool returns no response.
\<close>

theorem mental_model_custom_first_principles:
  "fst (mental_model_tool override_file (DefaultConfig\<lparr>MentalModelsPath := ''models.yaml''\<rparr>)
          tick_clock (empty_storage (DefaultConfig\<lparr>MentalModelsPath := ''models.yaml''\<rparr>))
          ''s1'' ''first_principles'' ''X'' []) =
     Inr \<lparr>mr_status = ''success'', mr_model_id = ''1000-1'',
          mr_model_info_name = ''My First Principles'',
          mr_model_info_description = ''A custom definition'',
          mr_model_info_category = ''custom'', mr_model_info_priority = 1,
          mr_steps_used = [''Ask why five times''], mr_has_steps = True,
          mr_has_conclusion = False, mr_session_id = ''s1'', mr_total_mental_models = 1\<rparr>
   \<and> fst (mental_model_tool stat_fails (DefaultConfig\<lparr>MentalModelsPath := ''/etc/passwd/x''\<rparr>)
          tick_clock (empty_storage (DefaultConfig\<lparr>MentalModelsPath := ''/etc/passwd/x''\<rparr>))
          ''s1'' ''first_principles'' ''X'' []) = Inl NilDereference"
  by (simp add: mental_model_tool_def LoadMentalModels_def loadCustomModels_def
      core_models_def MentalModels_def override_file_def stat_fails_def
      AddMentalModel_def GetSessionStats_def GetThoughts_def
      GetMentalModels_def drop_error_def stores_count_def getSession_def new_session_def
      time_Now_def Let_def Sprintf_d_def UnixNano_def decimal.simps digit_char_def
      empty_storage_def DefaultConfig_def tick_clock_def)

text \<open>
  Claim C8, amended. Take a call of the \<^verbatim>\<open>mental_model\<close> tool with the model name
  \<^verbatim>\<open>first_principles\<close> and no steps, for any session, problem, storage, clock and file
  system, in a configuration whose custom model path is empty (the default) or is a
  path on which \<^verbatim>\<open>os.Stat\<close> succeeds or reports that nothing exists there. The call
  succeeds. When no custom models are loaded that define \<^verbatim>\<open>first_principles\<close> (no path
  is configured, or loading fails with an error, or the loaded models do not have that
  key), the steps reported are the four steps of the built-in catalog and the category
  is \<^verbatim>\<open>analytical\<close>. When the loaded custom models (a Go map, so with one entry per key)
  define \<^verbatim>\<open>first_principles\<close>, the steps and the category reported are those of the
  custom definition.
\<close>

theorem mental_model_first_principles:
  assumes "MentalModelsPath cfg \<noteq> [] \<longrightarrow> Stat fs (MentalModelsPath cfg) \<noteq> Stat_Error"
  shows "\<exists>resp.
     fst (mental_model_tool fs cfg c s sid ''first_principles'' problem []) = Inr resp \<and>
     mr_status resp = ''success'' \<and>
     ((MentalModelsPath cfg \<noteq> [] \<longrightarrow>
        (\<forall>custom. loadCustomModels fs (MentalModelsPath cfg) = Some (Inr custom) \<longrightarrow>
           ''first_principles'' \<notin> fst ` set custom)) \<longrightarrow>
      mr_steps_used resp =
        [''Identify the problem clearly'', ''Break it down into basic components'',
         ''Question assumptions'', ''Build up from the basics''] \<and>
      mr_model_info_category resp = ''analytical'') \<and>
     (\<forall>custom model. MentalModelsPath cfg \<noteq> [] \<and>
        loadCustomModels fs (MentalModelsPath cfg) = Some (Inr custom) \<and>
        distinct (map fst custom) \<and> map_of custom ''first_principles'' = Some model \<longrightarrow>
        mr_steps_used resp = mm_Steps model \<and>
        mr_model_info_category resp = mm_Category model)"
proof -
  define builtin where "builtin \<longleftrightarrow>
    (MentalModelsPath cfg \<noteq> [] \<longrightarrow>
       (\<forall>custom. loadCustomModels fs (MentalModelsPath cfg) = Some (Inr custom) \<longrightarrow>
          ''first_principles'' \<notin> fst ` set custom))"
  define overridden where "overridden = (\<lambda>custom model'. MentalModelsPath cfg \<noteq> [] \<and>
       loadCustomModels fs (MentalModelsPath cfg) = Some (Inr custom) \<and>
       distinct (map fst custom) \<and> map_of custom ''first_principles'' = Some model')"
  from assms obtain models model where
    L: "LoadMentalModels fs (MentalModelsPath cfg) = Some (Inr models)"
    and M: "map_of models ''first_principles'' = Some model"
    and C: "builtin \<longrightarrow> map_of core_models ''first_principles'' = Some model"
    and O: "\<forall>custom model'. overridden custom model' \<longrightarrow> model' = model"
    unfolding builtin_def overridden_def by (rule LoadMentalModels_first_principles)
  from C have F: "builtin \<longrightarrow>
     mm_Steps model =
        [''Identify the problem clearly'', ''Break it down into basic components'',
         ''Question assumptions'', ''Build up from the basics''] \<and>
     mm_Category model = ''analytical''"
    by (auto simp add: core_models_first_principles)
  from L M obtain resp where
    r: "fst (mental_model_tool fs cfg c s sid ''first_principles'' problem []) = Inr resp"
    "mr_status resp = ''success''"
    and u: "mr_steps_used resp = mm_Steps model"
    "mr_model_info_category resp = mm_Category model"
    by (rule mental_model_tool_uses_entry)
  from F have b: "builtin \<longrightarrow>
      mr_steps_used resp =
        [''Identify the problem clearly'', ''Break it down into basic components'',
         ''Question assumptions'', ''Build up from the basics''] \<and>
      mr_model_info_category resp = ''analytical''"
    unfolding u .
  from O u have o: "\<forall>custom model'. overridden custom model' \<longrightarrow>
      mr_steps_used resp = mm_Steps model' \<and>
      mr_model_info_category resp = mm_Category model'"
    by blast
  from r b o have body:
    "fst (mental_model_tool fs cfg c s sid ''first_principles'' problem []) = Inr resp \<and>
     mr_status resp = ''success'' \<and>
     (builtin \<longrightarrow>
      mr_steps_used resp =
        [''Identify the problem clearly'', ''Break it down into basic components'',
         ''Question assumptions'', ''Build up from the basics''] \<and>
      mr_model_info_category resp = ''analytical'') \<and>
     (\<forall>custom model'. overridden custom model' \<longrightarrow>
      mr_steps_used resp = mm_Steps model' \<and>
      mr_model_info_category resp = mm_Category model')"
    by (intro conjI)
  show ?thesis
    by (rule exI[where x = resp]) (rule body[unfolded builtin_def overridden_def])
qed

theorem mental_model_first_principles_witness:
  "MentalModelsPath DefaultConfig = [] \<and>
   (\<exists>resp.
     fst (mental_model_tool no_files DefaultConfig tick_clock
            (empty_storage DefaultConfig) ''s1'' ''first_principles'' ''X'' []) = Inr resp \<and>
     mr_status resp = ''success'' \<and>
     mr_steps_used resp =
       [''Identify the problem clearly'', ''Break it down into basic components'',
        ''Question assumptions'', ''Build up from the basics''] \<and>
     mr_model_info_category resp = ''analytical'') \<and>
   Stat override_file ''models.yaml'' = Stat_File \<and>
   (\<exists>resp.
     fst (mental_model_tool override_file (DefaultConfig\<lparr>MentalModelsPath := ''models.yaml''\<rparr>)
            tick_clock (empty_storage DefaultConfig) ''s1'' ''first_principles'' ''X'' []) =
       Inr resp \<and>
     mr_status resp = ''success'' \<and>
     mr_steps_used resp = [''Ask why five times''] \<and>
     mr_model_info_category resp = ''custom'')"
proof -
  have p: "MentalModelsPath DefaultConfig = []" by (simp add: DefaultConfig_def)
  have q: "MentalModelsPath (DefaultConfig\<lparr>MentalModelsPath := ''models.yaml''\<rparr>) =
      ''models.yaml''" by simp
  have f: "Stat override_file ''models.yaml'' = Stat_File" by (simp add: override_file_def)
  have l: "loadCustomModels override_file ''models.yaml'' =
      Some (Inr [(''first_principles'',
                  \<lparr>mm_Name = ''My First Principles'',
                   mm_Description = ''A custom definition'',
                   mm_Steps = [''Ask why five times''],
                   mm_Category = ''custom'',
                   mm_Priority = 1\<rparr>)])"
    by (simp add: loadCustomModels_def override_file_def)
  from mental_model_first_principles[of DefaultConfig no_files
      tick_clock "empty_storage DefaultConfig" "''s1''" "''X''"] p
  have 1: "\<exists>resp.
     fst (mental_model_tool no_files DefaultConfig tick_clock
            (empty_storage DefaultConfig) ''s1'' ''first_principles'' ''X'' []) = Inr resp \<and>
     mr_status resp = ''success'' \<and>
     mr_steps_used resp =
       [''Identify the problem clearly'', ''Break it down into basic components'',
        ''Question assumptions'', ''Build up from the basics''] \<and>
     mr_model_info_category resp = ''analytical''"
    by simp
  from mental_model_first_principles[of "DefaultConfig\<lparr>MentalModelsPath := ''models.yaml''\<rparr>"
      override_file tick_clock "empty_storage DefaultConfig" "''s1''" "''X''"]
  have 2: "\<exists>resp.
     fst (mental_model_tool override_file (DefaultConfig\<lparr>MentalModelsPath := ''models.yaml''\<rparr>)
            tick_clock (empty_storage DefaultConfig) ''s1'' ''first_principles'' ''X'' []) =
       Inr resp \<and>
     mr_status resp = ''success'' \<and>
     mr_steps_used resp = [''Ask why five times''] \<and>
     mr_model_info_category resp = ''custom''"
    unfolding q l by (simp add: f)
  from p 1 f 2 show ?thesis by (intro conjI)
qed

subsection \<open>What the lists, the statistics and the export contain\<close>

lemma update_fresh: "k \<notin> fst ` set al \<Longrightarrow> AList.update k v al = al @ [(k, v)]"
  by (induction al) auto

lemma foldl_update_distinct:
  "distinct (map fst al @ map key ts) \<Longrightarrow>
   foldl (\<lambda>al t. AList.update (key t) t al) al ts = al @ map (\<lambda>t. (key t, t)) ts"
proof (induction ts arbitrary: al)
  case Nil
  then show ?case by simp
next
  case (Cons t ts)
  from Cons.prems have f: "key t \<notin> fst ` set al" by auto
  have "distinct (map fst (al @ [(key t, t)]) @ map key ts)"
    using Cons.prems by auto
  from Cons.IH[OF this] show ?case by (simp add: update_fresh[OF f])
qed

lemma AddMentalModel_result:
  obtains i t where
    "i \<noteq> []"
    "md_ID m \<noteq> [] \<longrightarrow> i = md_ID m"
    "fst (AddMentalModel c s sid m) = Inr (m\<lparr>md_ID := i, md_CreatedAt := t\<rparr>)"
    "mentalModels (fst (snd (AddMentalModel c s sid m))) =
       AList.update i (m\<lparr>md_ID := i, md_CreatedAt := t\<rparr>) (mentalModels s)"
    "thoughts (fst (snd (AddMentalModel c s sid m))) = thoughts s"
proof -
  define i where "i = (if md_ID m = [] then fst (generateID c) else md_ID m)"
  define c1 where "c1 = (if md_ID m = [] then snd (generateID c) else c)"
  have id: "(if md_ID m = []
           then (case generateID c of (i, c') \<Rightarrow> (m\<lparr>md_ID := i\<rparr>, c'))
           else (m, c)) = (m\<lparr>md_ID := i\<rparr>, c1)"
    by (simp add: i_def c1_def split: prod.splits)
  obtain t2 c2 where n2: "time_Now c1 = (t2, c2)" by (cases "time_Now c1") auto
  define s1 where "s1 = s\<lparr>mentalModels :=
     AList.update i (m\<lparr>md_ID := i, md_CreatedAt := t2\<rparr>) (mentalModels s)\<rparr>"
  obtain x s2 c3 where g: "getSession c2 s1 sid = (x, s2, c3)"
    by (cases "getSession c2 s1 sid") auto
  obtain t4 c4 where n4: "time_Now c3 = (t4, c4)" by (cases "time_Now c3") auto
  from getSession_keeps[OF g] have k: "thoughts s2 = thoughts s"
    "mentalModels s2 = AList.update i (m\<lparr>md_ID := i, md_CreatedAt := t2\<rparr>) (mentalModels s)"
    by (simp_all add: s1_def)
  have r: "AddMentalModel c s sid m =
      (Inr (m\<lparr>md_ID := i, md_CreatedAt := t2\<rparr>),
       s2\<lparr>sessions := (sessions s2)(sid \<mapsto> x\<lparr>sd_LastAccessedAt := t4\<rparr>)\<rparr>, c4)"
    using n2 g n4 unfolding AddMentalModel_def id
    by (simp add: Let_def s1_def)
  have 1: "i \<noteq> []" by (simp add: i_def generateID_nonempty)
  have 2: "md_ID m \<noteq> [] \<longrightarrow> i = md_ID m" by (simp add: i_def)
  have 3: "fst (AddMentalModel c s sid m) = Inr (m\<lparr>md_ID := i, md_CreatedAt := t2\<rparr>)"
    by (simp add: r)
  have 4: "mentalModels (fst (snd (AddMentalModel c s sid m))) =
       AList.update i (m\<lparr>md_ID := i, md_CreatedAt := t2\<rparr>) (mentalModels s)"
    by (simp add: r k)
  have 5: "thoughts (fst (snd (AddMentalModel c s sid m))) = thoughts s"
    by (simp add: r k)
  from that[OF 1 2 3 4 5] show ?thesis .
qed

lemma AddThought_result:
  obtains (fail) e where
    "fst (AddThought c s sid t) = Inl e"
    "thoughts (fst (snd (AddThought c s sid t))) = thoughts s"
    "mentalModels (fst (snd (AddThought c s sid t))) = mentalModels s"
  | (ok) i u where
    "fst (AddThought c s sid t) = Inr (t\<lparr>td_ID := i, td_CreatedAt := u\<rparr>)"
    "thoughts (fst (snd (AddThought c s sid t))) =
       AList.update i (t\<lparr>td_ID := i, td_CreatedAt := u\<rparr>) (thoughts s)"
    "mentalModels (fst (snd (AddThought c s sid t))) = mentalModels s"
proof (cases "MaxThoughtsPerSession (config s) \<le> thought_count s sid")
  case True
  from AddThought_fail[OF True, of c t]
  have "fst (AddThought c s sid t) = Inl (ThoughtLimitExceeded sid)"
    "thoughts (fst (snd (AddThought c s sid t))) = thoughts s"
    "mentalModels (fst (snd (AddThought c s sid t))) = mentalModels s"
    by (simp_all add: getSession_thoughts)
  then show ?thesis by (rule fail)
next
  case False
  then have "thought_count s sid < MaxThoughtsPerSession (config s)" by simp
  then obtain k i where
    "i \<noteq> []" "td_ID t \<noteq> [] \<longrightarrow> i = td_ID t"
    "td_ID t = [] \<longrightarrow> 2 \<le> k \<and>
        i = Sprintf_d (UnixNano (c (k - 2))) @ ''-'' @ Sprintf_d (Nanosecond (c (k - 1)))"
    and r: "AddThought c s sid t =
       (Inr (t\<lparr>td_ID := i, td_CreatedAt := c k\<rparr>),
        s\<lparr>thoughts := AList.update i (t\<lparr>td_ID := i, td_CreatedAt := c k\<rparr>) (thoughts s),
          sessions := (sessions s)(sid \<mapsto> (fst (getSession c s sid))
             \<lparr>sd_ThoughtCount := thought_count s sid + 1,
              sd_LastAccessedAt := c (Suc k)\<rparr>)\<rparr>,
        later c (k + 2))" by (rule AddThought_success)
  have "fst (AddThought c s sid t) = Inr (t\<lparr>td_ID := i, td_CreatedAt := c k\<rparr>)"
    "thoughts (fst (snd (AddThought c s sid t))) =
       AList.update i (t\<lparr>td_ID := i, td_CreatedAt := c k\<rparr>) (thoughts s)"
    "mentalModels (fst (snd (AddThought c s sid t))) = mentalModels s"
    by (simp_all add: r)
  then show ?thesis by (rule ok)
qed

lemma step_stores:
  "thoughts (fst (step \<sigma> x)) =
     foldl (\<lambda>al t. AList.update (td_ID t) t al) (thoughts (fst \<sigma>)) (accepted_thoughts \<sigma> [x])
   \<and> mentalModels (fst (step \<sigma> x)) =
     foldl (\<lambda>al m. AList.update (md_ID m) m al) (mentalModels (fst \<sigma>)) (accepted_models \<sigma> [x])
   \<and> map thought_content (accepted_thoughts \<sigma> [x]) =
       map thought_content (submitted_thoughts \<sigma> [x])
   \<and> map model_content (accepted_models \<sigma> [x]) =
       map model_content (submitted_models \<sigma> [x])"
proof (cases \<sigma>)
  case (Pair s c)
  show ?thesis
  proof (cases x)
    case (Op_AddThought sid t)
    show ?thesis
      by (rule AddThought_result[of c s sid t])
         (simp_all add: Pair Op_AddThought thought_content_def)
  next
    case (Op_AddMentalModel sid m)
    show ?thesis
      by (rule AddMentalModel_result[of m c s sid])
         (simp_all add: Pair Op_AddMentalModel model_content_def)
  next
    case (Op_getSession sid)
    then show ?thesis by (simp add: Pair getSession_thoughts)
  next
    case (Op_GetSessionStats sid)
    obtain stats where
      "GetSessionStats c s sid = (Inr stats, snd (getSession c s sid))"
      by (rule GetSessionStats_fields)
    with Op_GetSessionStats show ?thesis by (simp add: Pair getSession_thoughts)
  next
    case (Op_ExportSession sid)
    then show ?thesis by (simp add: Pair ExportSession_def Let_def split: prod.splits)
  next
    case Op_time_Now
    then show ?thesis by (simp add: Pair)
  qed
qed


lemma accepted_thoughts_Cons:
  "accepted_thoughts \<sigma> (x # ops) = accepted_thoughts \<sigma> [x] @ accepted_thoughts (step \<sigma> x) ops"
  by (cases x) simp_all

lemma submitted_thoughts_Cons:
  "submitted_thoughts \<sigma> (x # ops) =
     submitted_thoughts \<sigma> [x] @ submitted_thoughts (step \<sigma> x) ops"
  by (cases x) simp_all

lemma accepted_models_Cons:
  "accepted_models \<sigma> (x # ops) = accepted_models \<sigma> [x] @ accepted_models (step \<sigma> x) ops"
  by (cases x) simp_all

lemma submitted_models_Cons:
  "submitted_models \<sigma> (x # ops) = submitted_models \<sigma> [x] @ submitted_models (step \<sigma> x) ops"
  by (cases x) simp_all

lemma run_thoughts:
  "thoughts (fst (run \<sigma> ops)) =
     foldl (\<lambda>al t. AList.update (td_ID t) t al) (thoughts (fst \<sigma>)) (accepted_thoughts \<sigma> ops)"
proof (induction ops arbitrary: \<sigma>)
  case Nil
  then show ?case by (simp add: run_def)
next
  case (Cons x ops)
  have "run \<sigma> (x # ops) = run (step \<sigma> x) ops" by (simp add: run_def)
  then show ?case
    using Cons.IH[of "step \<sigma> x"] step_stores[of \<sigma> x]
    by (simp add: accepted_thoughts_Cons[of \<sigma> x ops])
qed

lemma run_mentalModels:
  "mentalModels (fst (run \<sigma> ops)) =
     foldl (\<lambda>al m. AList.update (md_ID m) m al) (mentalModels (fst \<sigma>)) (accepted_models \<sigma> ops)"
proof (induction ops arbitrary: \<sigma>)
  case Nil
  then show ?case by (simp add: run_def)
next
  case (Cons x ops)
  have "run \<sigma> (x # ops) = run (step \<sigma> x) ops" by (simp add: run_def)
  then show ?case
    using Cons.IH[of "step \<sigma> x"] step_stores[of \<sigma> x]
    by (simp add: accepted_models_Cons[of \<sigma> x ops])
qed

lemma accepted_thoughts_content:
  "map thought_content (accepted_thoughts \<sigma> ops) =
     map thought_content (submitted_thoughts \<sigma> ops)"
proof (induction ops arbitrary: \<sigma>)
  case Nil
  then show ?case by simp
next
  case (Cons x ops)
  show ?case
    using Cons.IH[of "step \<sigma> x"] step_stores[of \<sigma> x]
    by (simp add: accepted_thoughts_Cons[of \<sigma> x ops] submitted_thoughts_Cons[of \<sigma> x ops])
qed

lemma accepted_models_content:
  "map model_content (accepted_models \<sigma> ops) =
     map model_content (submitted_models \<sigma> ops)"
proof (induction ops arbitrary: \<sigma>)
  case Nil
  then show ?case by simp
next
  case (Cons x ops)
  show ?case
    using Cons.IH[of "step \<sigma> x"] step_stores[of \<sigma> x]
    by (simp add: accepted_models_Cons[of \<sigma> x ops] submitted_models_Cons[of \<sigma> x ops])
qed

lemma ExportSession_data:
  obtains export where
    "fst (ExportSession c s sid) = Inr export"
    "ex_Data_thoughts export = map snd (thoughts s)"
    "ex_Data_mental_models export = map snd (mentalModels s)"
    "ex_SessionID export = sid"
proof -
  obtain t1 c1 where n1: "time_Now c = (t1, c1)" by (cases "time_Now c") auto
  obtain t2 c2 where n2: "time_Now c1 = (t2, c2)" by (cases "time_Now c1") auto
  define export where "export =
     \<lparr>ex_Version = ''1.0.0'', ex_Timestamp = t1, ex_SessionID = sid,
      ex_SessionType = ''hybrid'', ex_Data_thoughts = map snd (thoughts s),
      ex_Data_mental_models = map snd (mentalModels s),
      ex_Metadata_exported_at = t2, ex_Metadata_version = ''0.1.0''\<rparr>"
  have 1: "fst (ExportSession c s sid) = Inr export"
    by (simp add: ExportSession_def n1 n2 GetThoughts_def GetMentalModels_def drop_error_def
        Let_def export_def)
  have 2: "ex_Data_thoughts export = map snd (thoughts s)"
    and 3: "ex_Data_mental_models export = map snd (mentalModels s)"
    and 4: "ex_SessionID export = sid"
    by (simp_all add: export_def)
  from that[OF 1 2 3 4] show ?thesis .
qed

text \<open>
  Claim C5, as stated, fails when two submissions carry the same identifier: the store
  is keyed by the identifier, so the second thought replaces the first. After two
  successful thought submissions of one session the export holds one thought record.
\<close>

theorem export_drops_replaced_thought:
  "length (submitted_thoughts (empty_storage DefaultConfig, tick_clock)
      [Op_AddThought ''s1'' (thought_lit ''a'' ''x'' 1 2),
       Op_AddThought ''s1'' (thought_lit ''a'' ''y'' 2 2)]) = 2
   \<and> fst (ExportSession
       (snd (run (empty_storage DefaultConfig, tick_clock)
          [Op_AddThought ''s1'' (thought_lit ''a'' ''x'' 1 2),
           Op_AddThought ''s1'' (thought_lit ''a'' ''y'' 2 2)]))
       (fst (run (empty_storage DefaultConfig, tick_clock)
          [Op_AddThought ''s1'' (thought_lit ''a'' ''x'' 1 2),
           Op_AddThought ''s1'' (thought_lit ''a'' ''y'' 2 2)])) ''s1'') =
     Inr \<lparr>ex_Version = ''1.0.0'', ex_Timestamp = 1006, ex_SessionID = ''s1'',
          ex_SessionType = ''hybrid'',
          ex_Data_thoughts = [(thought_lit ''a'' ''y'' 2 2)\<lparr>td_CreatedAt := 1004\<rparr>],
          ex_Data_mental_models = [],
          ex_Metadata_exported_at = 1007, ex_Metadata_version = ''0.1.0''\<rparr>"
  by (simp add: run_def ExportSession_def GetThoughts_def GetMentalModels_def drop_error_def
      AddThought_def getSession_def new_session_def time_Now_def Let_def
      empty_storage_def DefaultConfig_def thought_lit_def tick_clock_def)

text \<open>
  Claim C5, amended. Take a new storage and a sequence of operations in which every
  append is for the session, and let the identifiers of the accepted thoughts be
  pairwise distinct, and those of the accepted mental models too. Then the export of the
  session succeeds and holds as many thought records as thought submissions succeeded
  and as many application records as mental models were submitted, and, identifier and
  creation time apart, the records are the submitted ones, field for field (as
  multisets: the order of the records is the order of iteration over a Go map).
\<close>

theorem export_after_submissions:
  assumes "\<forall>x \<in> set ops. writes_of_session sid x"
    and "distinct (map td_ID (accepted_thoughts (empty_storage cfg, c) ops))"
    and "distinct (map md_ID (accepted_models (empty_storage cfg, c) ops))"
  shows "\<exists>export.
     fst (ExportSession (snd (run (empty_storage cfg, c) ops))
            (fst (run (empty_storage cfg, c) ops)) sid) = Inr export \<and>
     ex_SessionID export = sid \<and>
     length (ex_Data_thoughts export) = length (submitted_thoughts (empty_storage cfg, c) ops) \<and>
     length (ex_Data_mental_models export) =
       length (submitted_models (empty_storage cfg, c) ops) \<and>
     mset (map thought_content (ex_Data_thoughts export)) =
       mset (map thought_content (submitted_thoughts (empty_storage cfg, c) ops)) \<and>
     mset (map model_content (ex_Data_mental_models export)) =
       mset (map model_content (submitted_models (empty_storage cfg, c) ops))"
proof -
  let ?\<sigma> = "(empty_storage cfg, c)"
  have t: "map snd (thoughts (fst (run ?\<sigma> ops))) = accepted_thoughts ?\<sigma> ops"
    using foldl_update_distinct[of "[]" td_ID "accepted_thoughts ?\<sigma> ops"] assms(2)
    by (simp add: run_thoughts empty_storage_def comp_def)
  have m: "map snd (mentalModels (fst (run ?\<sigma> ops))) = accepted_models ?\<sigma> ops"
    using foldl_update_distinct[of "[]" md_ID "accepted_models ?\<sigma> ops"] assms(3)
    by (simp add: run_mentalModels empty_storage_def comp_def)
  obtain export where
    e: "fst (ExportSession (snd (run ?\<sigma> ops)) (fst (run ?\<sigma> ops)) sid) = Inr export"
    and d: "ex_Data_thoughts export = map snd (thoughts (fst (run ?\<sigma> ops)))"
      "ex_Data_mental_models export = map snd (mentalModels (fst (run ?\<sigma> ops)))"
      "ex_SessionID export = sid"
    by (rule ExportSession_data)
  have lt: "length (accepted_thoughts ?\<sigma> ops) = length (submitted_thoughts ?\<sigma> ops)"
    using arg_cong[OF accepted_thoughts_content[of ?\<sigma> ops], of length] by simp
  have lm: "length (accepted_models ?\<sigma> ops) = length (submitted_models ?\<sigma> ops)"
    using arg_cong[OF accepted_models_content[of ?\<sigma> ops], of length] by simp
  have "fst (ExportSession (snd (run ?\<sigma> ops)) (fst (run ?\<sigma> ops)) sid) = Inr export \<and>
     ex_SessionID export = sid \<and>
     length (ex_Data_thoughts export) = length (submitted_thoughts ?\<sigma> ops) \<and>
     length (ex_Data_mental_models export) = length (submitted_models ?\<sigma> ops) \<and>
     mset (map thought_content (ex_Data_thoughts export)) =
       mset (map thought_content (submitted_thoughts ?\<sigma> ops)) \<and>
     mset (map model_content (ex_Data_mental_models export)) =
       mset (map model_content (submitted_models ?\<sigma> ops))"
    by (simp add: e d t m lt lm accepted_thoughts_content accepted_models_content)
  then show ?thesis by (rule exI)
qed

theorem export_after_submissions_witness:
  "distinct (map td_ID (accepted_thoughts (empty_storage DefaultConfig, tick_clock)
          [Op_AddThought ''s1'' (thought_lit ''a'' ''x'' 1 2),
           Op_AddMentalModel ''s1'' (model_lit ''m'' ''first_principles'' ''X'' [''one'']),
           Op_AddThought ''s1'' (thought_lit [] ''y'' 2 2)])) \<and>
   (\<exists>export.
     fst (ExportSession
       (snd (run (empty_storage DefaultConfig, tick_clock)
          [Op_AddThought ''s1'' (thought_lit ''a'' ''x'' 1 2),
           Op_AddMentalModel ''s1'' (model_lit ''m'' ''first_principles'' ''X'' [''one'']),
           Op_AddThought ''s1'' (thought_lit [] ''y'' 2 2)]))
       (fst (run (empty_storage DefaultConfig, tick_clock)
          [Op_AddThought ''s1'' (thought_lit ''a'' ''x'' 1 2),
           Op_AddMentalModel ''s1'' (model_lit ''m'' ''first_principles'' ''X'' [''one'']),
           Op_AddThought ''s1'' (thought_lit [] ''y'' 2 2)])) ''s1'') = Inr export \<and>
     length (ex_Data_thoughts export) = 2 \<and>
     length (ex_Data_mental_models export) = 1 \<and>
     mset (map thought_content (ex_Data_thoughts export)) =
       mset [thought_lit [] ''x'' 1 2, thought_lit [] ''y'' 2 2] \<and>
     mset (map model_content (ex_Data_mental_models export)) =
       mset [model_lit [] ''first_principles'' ''X'' [''one'']])"
proof -
  let ?ops = "[Op_AddThought ''s1'' (thought_lit ''a'' ''x'' 1 2),
           Op_AddMentalModel ''s1'' (model_lit ''m'' ''first_principles'' ''X'' [''one'']),
           Op_AddThought ''s1'' (thought_lit [] ''y'' 2 2)]"
  let ?\<sigma> = "(empty_storage DefaultConfig, tick_clock)"
  have w: "\<forall>x \<in> set ?ops. writes_of_session ''s1'' x" by simp
  have a: "accepted_thoughts ?\<sigma> ?ops =
      [(thought_lit ''a'' ''x'' 1 2)\<lparr>td_CreatedAt := 1002\<rparr>,
       (thought_lit ''1006-1007'' ''y'' 2 2)\<lparr>td_CreatedAt := 1008\<rparr>]"
    by (simp add: AddThought_def AddMentalModel_def getSession_def new_session_def
        time_Now_def Let_def generateID_def Sprintf_d_def UnixNano_def Nanosecond_def
        decimal.simps digit_char_def empty_storage_def DefaultConfig_def thought_lit_def
        model_lit_def tick_clock_def)
  have b: "accepted_models ?\<sigma> ?ops =
      [(model_lit ''m'' ''first_principles'' ''X'' [''one''])\<lparr>md_CreatedAt := 1004\<rparr>]"
    by (simp add: AddThought_def AddMentalModel_def getSession_def new_session_def
        time_Now_def Let_def empty_storage_def DefaultConfig_def thought_lit_def
        model_lit_def tick_clock_def)
  have s: "submitted_thoughts ?\<sigma> ?ops = [thought_lit ''a'' ''x'' 1 2, thought_lit [] ''y'' 2 2]"
    by (simp add: AddThought_def AddMentalModel_def getSession_def new_session_def
        time_Now_def Let_def generateID_def empty_storage_def DefaultConfig_def thought_lit_def
        model_lit_def tick_clock_def)
  have u: "submitted_models ?\<sigma> ?ops = [model_lit ''m'' ''first_principles'' ''X'' [''one'']]"
    by (simp add: AddThought_def AddMentalModel_def getSession_def new_session_def
        time_Now_def Let_def empty_storage_def DefaultConfig_def thought_lit_def
        model_lit_def tick_clock_def)
  have da: "distinct (map td_ID (accepted_thoughts ?\<sigma> ?ops))"
    unfolding a by (simp add: thought_lit_def)
  have db: "distinct (map md_ID (accepted_models ?\<sigma> ?ops))"
    unfolding b by (simp add: model_lit_def)
  have ct: "map thought_content [thought_lit ''a'' ''x'' 1 2, thought_lit [] ''y'' 2 2] =
      [thought_lit [] ''x'' 1 2, thought_lit [] ''y'' 2 2]"
    by (simp add: thought_content_def thought_lit_def)
  have cm: "map model_content [model_lit ''m'' ''first_principles'' ''X'' [''one'']] =
      [model_lit [] ''first_principles'' ''X'' [''one'']]"
    by (simp add: model_content_def model_lit_def)
  from export_after_submissions[OF w da db] da show ?thesis
    unfolding s u ct cm by (auto simp add: numeral_2_eq_2)
qed

text \<open>
  Claim C2 against the code. \<^verbatim>\<open>GetThoughts\<close> does not read its session identifier (the
  loop carries the comment ``In a real implementation, you'd filter by session ID''): a
  thought appended for session \<open>s1\<close> is returned for session \<open>s2\<close>, which has appended
  none.
\<close>

theorem GetThoughts_of_other_session:
  "GetThoughts (fst (run (empty_storage DefaultConfig, tick_clock)
       [Op_AddThought ''s1'' (thought_lit ''a'' ''x'' 1 1), Op_getSession ''s2''])) ''s2'' =
     Inr [(thought_lit ''a'' ''x'' 1 1)\<lparr>td_CreatedAt := 1002\<rparr>]
   \<and> thought_count (fst (run (empty_storage DefaultConfig, tick_clock)
       [Op_AddThought ''s1'' (thought_lit ''a'' ''x'' 1 1), Op_getSession ''s2''])) ''s2'' = 0"
  by (simp add: run_def GetThoughts_def thought_count_def
      AddThought_def getSession_def new_session_def time_Now_def Let_def
      empty_storage_def DefaultConfig_def thought_lit_def tick_clock_def)

text \<open>
  Claim C4 against the code. \<^verbatim>\<open>GetSessionStats\<close> counts the thoughts and mental models
  of the whole store: for session \<open>s2\<close>, whose thought count is 0, it reports a thought
  count of 1, 99 remaining thoughts, one operation and the tool
  \<^verbatim>\<open>sequential-thinking\<close>, after one thought of session \<open>s1\<close>.
\<close>

theorem GetSessionStats_of_other_session:
  "fst (GetSessionStats
       (snd (run (empty_storage DefaultConfig, tick_clock)
          [Op_AddThought ''s1'' (thought_lit ''a'' ''x'' 1 1)]))
       (fst (run (empty_storage DefaultConfig, tick_clock)
          [Op_AddThought ''s1'' (thought_lit ''a'' ''x'' 1 1)])) ''s2'') =
     Inr \<lparr>st_SessionID = ''s2'', st_CreatedAt = 1004, st_LastAccessedAt = 1005,
          st_ThoughtCount = 1, st_ToolsUsed = [''sequential-thinking''],
          st_TotalOperations = 1, st_IsActive = True, st_RemainingThoughts = 99,
          st_Stores = [(''thoughts'', [(''count'', 1)]), (''mental_models'', [(''count'', 0)])]\<rparr>
   \<and> thought_count (fst (snd (GetSessionStats
       (snd (run (empty_storage DefaultConfig, tick_clock)
          [Op_AddThought ''s1'' (thought_lit ''a'' ''x'' 1 1)]))
       (fst (run (empty_storage DefaultConfig, tick_clock)
          [Op_AddThought ''s1'' (thought_lit ''a'' ''x'' 1 1)])) ''s2''))) ''s2'' = 0"
  by (simp add: run_def GetSessionStats_def GetThoughts_def GetMentalModels_def drop_error_def
      thought_count_def AddThought_def getSession_def new_session_def time_Now_def Let_def
      empty_storage_def DefaultConfig_def thought_lit_def tick_clock_def)

end
